theory Spec2Isabelle
  imports Main "HOL-Library.Word" "HOL-Library.Product_Lexorder"
begin

section \<open>Data model: the tables of the migration\<close>

text \<open>
  Identifiers (\<open>UUID\<close>) and the enumerated \<open>TEXT\<close> columns are strings.  A
  \<open>TIMESTAMPTZ\<close> value and a JavaScript \<open>Date\<close> are both read as the number of
  milliseconds since the epoch, the unit of \<open>Date.getTime()\<close>.  A column without
  \<open>NOT NULL\<close> is an \<open>option\<close>, \<open>None\<close> being SQL \<open>NULL\<close> (\<open>null\<close> in the
  generated row types).  Text typed by the user is a JavaScript string: a sequence of
  UTF-16 code units.
\<close>

type_synonym uuid = string
type_synonym timestamptz = int
type_synonym js_string = "16 word list"

datatype user_role = Student | Counselor | Admin

record profile =
  prof_id :: uuid
  prof_email :: string
  prof_first_name :: string
  prof_last_name :: string
  prof_phone :: "string option"
  prof_profile_image_url :: "string option"
  prof_role :: "user_role option"
  prof_is_active :: "bool option"
  prof_last_login_at :: "timestamptz option"
  prof_created_at :: "timestamptz option"
  prof_updated_at :: "timestamptz option"

record chat_conversation =
  conv_id :: uuid
  conv_student_id :: uuid
  conv_counselor_id :: uuid
  conv_conversation_type :: "string option"
  conv_status :: "string option"
  conv_started_at :: "timestamptz option"
  conv_last_message_at :: "timestamptz option"
  conv_created_at :: "timestamptz option"
  conv_updated_at :: "timestamptz option"

record chat_message =
  msg_id :: uuid
  msg_conversation_id :: uuid
  msg_sender_id :: uuid
  msg_message_type :: "string option"
  msg_content :: "js_string option"
  msg_file_url :: "string option"
  msg_file_name :: "string option"
  msg_status :: "string option"
  msg_read_at :: "timestamptz option"
  msg_created_at :: "timestamptz option"

record appointment =
  appt_id :: uuid
  appt_student_id :: uuid
  appt_counselor_id :: uuid
  appt_conversation_id :: "uuid option"
  appt_appointment_type :: "string option"
  appt_status :: "string option"
  appt_scheduled_start :: timestamptz
  appt_scheduled_end :: timestamptz
  appt_meeting_url :: "string option"
  appt_notes :: "string option"
  appt_reason_for_visit :: "string option"
  appt_is_emergency :: "bool option"
  appt_created_at :: "timestamptz option"
  appt_updated_at :: "timestamptz option"

record database =
  profiles :: "profile list"
  chat_conversations :: "chat_conversation list"
  chat_messages :: "chat_message list"
  appointments :: "appointment list"

section \<open>Row-level security policies\<close>

text \<open>
  Every table has row-level security enabled, so a statement by the acting identity
  \<open>auth.uid()\<close> sees and writes only what the policies of the migration allow.
  \<open>auth.uid()\<close> is \<open>NULL\<close> for a request without a session; the columns it is
  compared with are \<open>NOT NULL\<close>, and a comparison with \<open>NULL\<close> is not true.
\<close>

definition auth_uid_is :: "uuid option \<Rightarrow> uuid \<Rightarrow> bool" where
  "auth_uid_is uid x = (uid = Some x)"

text \<open>Policies on \<open>chat_conversations\<close>, named as in the migration.\<close>

definition users_can_view_own_conversations :: "uuid option \<Rightarrow> chat_conversation \<Rightarrow> bool" where
  "users_can_view_own_conversations uid c =
     (auth_uid_is uid (conv_student_id c) \<or> auth_uid_is uid (conv_counselor_id c))"

definition students_can_create_conversations :: "uuid option \<Rightarrow> chat_conversation \<Rightarrow> bool" where
  "students_can_create_conversations uid c = auth_uid_is uid (conv_student_id c)"

definition participants_can_update_conversations :: "uuid option \<Rightarrow> chat_conversation \<Rightarrow> bool" where
  "participants_can_update_conversations uid c =
     (auth_uid_is uid (conv_student_id c) \<or> auth_uid_is uid (conv_counselor_id c))"

text \<open>
  Policies on \<open>chat_messages\<close>.  The \<open>EXISTS\<close> subquery ranges over the rows of
  \<open>chat_conversations\<close>.
\<close>

definition users_can_view_messages_in_their_conversations ::
  "uuid option \<Rightarrow> chat_conversation list \<Rightarrow> chat_message \<Rightarrow> bool" where
  "users_can_view_messages_in_their_conversations uid convs m =
     list_ex (\<lambda>c. conv_id c = msg_conversation_id m \<and>
                  (auth_uid_is uid (conv_student_id c) \<or> auth_uid_is uid (conv_counselor_id c)))
       convs"

definition users_can_insert_messages_in_their_conversations ::
  "uuid option \<Rightarrow> chat_conversation list \<Rightarrow> chat_message \<Rightarrow> bool" where
  "users_can_insert_messages_in_their_conversations uid convs m =
     (auth_uid_is uid (msg_sender_id m) \<and>
      list_ex (\<lambda>c. conv_id c = msg_conversation_id m \<and>
                   (auth_uid_is uid (conv_student_id c) \<or> auth_uid_is uid (conv_counselor_id c)))
        convs)"

text \<open>Policies on \<open>appointments\<close>.\<close>

definition users_can_view_own_appointments :: "uuid option \<Rightarrow> appointment \<Rightarrow> bool" where
  "users_can_view_own_appointments uid a =
     (auth_uid_is uid (appt_student_id a) \<or> auth_uid_is uid (appt_counselor_id a))"

definition students_can_create_appointments :: "uuid option \<Rightarrow> appointment \<Rightarrow> bool" where
  "students_can_create_appointments uid a = auth_uid_is uid (appt_student_id a)"

definition participants_can_update_appointments :: "uuid option \<Rightarrow> appointment \<Rightarrow> bool" where
  "participants_can_update_appointments uid a =
     (auth_uid_is uid (appt_student_id a) \<or> auth_uid_is uid (appt_counselor_id a))"

section \<open>Table constraints\<close>

text \<open>
  A \<open>CHECK (col IN (...))\<close> passes on \<open>NULL\<close>.  \<open>NOT NULL\<close> is carried by the column
  types.  The row predicates below collect the \<open>CHECK\<close> and \<open>REFERENCES\<close> clauses of
  each table; the primary key is checked where a row is added or changed.  No
  constraint of \<open>appointments\<close> relates \<open>scheduled_start\<close> to \<open>scheduled_end\<close>.
\<close>

definition check_in :: "string option \<Rightarrow> string list \<Rightarrow> bool" where
  "check_in v allowed = (case v of None \<Rightarrow> True | Some s \<Rightarrow> s \<in> set allowed)"

definition chat_conversations_row_ok :: "database \<Rightarrow> chat_conversation \<Rightarrow> bool" where
  "chat_conversations_row_ok db c =
     (conv_student_id c \<in> set (map prof_id (profiles db)) \<and>
      conv_counselor_id c \<in> set (map prof_id (profiles db)) \<and>
      check_in (conv_conversation_type c) [''support'', ''consultation'', ''emergency''] \<and>
      check_in (conv_status c) [''active'', ''ended'', ''archived''])"

definition chat_messages_row_ok :: "database \<Rightarrow> chat_message \<Rightarrow> bool" where
  "chat_messages_row_ok db m =
     (msg_conversation_id m \<in> set (map conv_id (chat_conversations db)) \<and>
      msg_sender_id m \<in> set (map prof_id (profiles db)) \<and>
      check_in (msg_message_type m) [''text'', ''file'', ''image'', ''video''] \<and>
      check_in (msg_status m) [''sent'', ''delivered'', ''read''])"

definition appointments_row_ok :: "database \<Rightarrow> appointment \<Rightarrow> bool" where
  "appointments_row_ok db a =
     (appt_student_id a \<in> set (map prof_id (profiles db)) \<and>
      appt_counselor_id a \<in> set (map prof_id (profiles db)) \<and>
      (case appt_conversation_id a of None \<Rightarrow> True
       | Some cid \<Rightarrow> cid \<in> set (map conv_id (chat_conversations db))) \<and>
      check_in (appt_appointment_type a) [''chat'', ''video'', ''in_person''] \<and>
      check_in (appt_status a)
        [''scheduled'', ''confirmed'', ''in_progress'', ''completed'', ''cancelled''])"

section \<open>Statements under row-level security\<close>

text \<open>
  What the storage layer does with a statement of the acting identity.  A \<open>SELECT\<close>
  returns the rows that pass the table's \<open>USING\<close> policy; the others are withheld.
  An \<open>INSERT\<close> whose new row fails the \<open>WITH CHECK\<close> policy is refused with a
  policy error before the constraints are looked at, and nothing is written.  An
  \<open>UPDATE\<close> touches only rows that pass the \<open>USING\<close> policy and the statement's
  \<open>WHERE\<close> clause; a policy without \<open>WITH CHECK\<close> applies its \<open>USING\<close>
  expression to the changed row as well.  A failed statement leaves the database as
  it was.
\<close>

datatype db_error =
  PolicyDenied | ConstraintViolation | NotSingleRow | InvalidInput | NetworkFailure

definition select_chat_conversations :: "uuid option \<Rightarrow> database \<Rightarrow> chat_conversation list" where
  "select_chat_conversations uid db =
     filter (users_can_view_own_conversations uid) (chat_conversations db)"

definition select_chat_messages :: "uuid option \<Rightarrow> database \<Rightarrow> chat_message list" where
  "select_chat_messages uid db =
     filter (users_can_view_messages_in_their_conversations uid (chat_conversations db))
       (chat_messages db)"

definition select_appointments :: "uuid option \<Rightarrow> database \<Rightarrow> appointment list" where
  "select_appointments uid db =
     filter (users_can_view_own_appointments uid) (appointments db)"

definition insert_chat_conversations ::
  "uuid option \<Rightarrow> database \<Rightarrow> chat_conversation \<Rightarrow> db_error option \<times> database" where
  "insert_chat_conversations uid db c =
     (if \<not> students_can_create_conversations uid c then (Some PolicyDenied, db)
      else if \<not> chat_conversations_row_ok db c \<or> conv_id c \<in> set (map conv_id (chat_conversations db))
        then (Some ConstraintViolation, db)
      else (None, db\<lparr>chat_conversations := chat_conversations db @ [c]\<rparr>))"

definition insert_chat_messages ::
  "uuid option \<Rightarrow> database \<Rightarrow> chat_message \<Rightarrow> db_error option \<times> database" where
  "insert_chat_messages uid db m =
     (if \<not> users_can_insert_messages_in_their_conversations uid (chat_conversations db) m
        then (Some PolicyDenied, db)
      else if \<not> chat_messages_row_ok db m \<or> msg_id m \<in> set (map msg_id (chat_messages db))
        then (Some ConstraintViolation, db)
      else (None, db\<lparr>chat_messages := chat_messages db @ [m]\<rparr>))"

definition insert_appointments ::
  "uuid option \<Rightarrow> database \<Rightarrow> appointment \<Rightarrow> db_error option \<times> database" where
  "insert_appointments uid db a =
     (if \<not> students_can_create_appointments uid a then (Some PolicyDenied, db)
      else if \<not> appointments_row_ok db a \<or> appt_id a \<in> set (map appt_id (appointments db))
        then (Some ConstraintViolation, db)
      else (None, db\<lparr>appointments := appointments db @ [a]\<rparr>))"

definition rls_update ::
  "('r \<Rightarrow> bool) \<Rightarrow> ('r \<Rightarrow> bool) \<Rightarrow> ('r \<Rightarrow> uuid) \<Rightarrow> ('r \<Rightarrow> bool) \<Rightarrow> ('r \<Rightarrow> 'r) \<Rightarrow> 'r list
     \<Rightarrow> db_error + 'r list" where
  "rls_update using row_ok pk wher f rows =
     (let hit = (\<lambda>r. using r \<and> wher r);
          rows' = map (\<lambda>r. if hit r then f r else r) rows
      in if list_ex (\<lambda>r. hit r \<and> \<not> using (f r)) rows then Inl PolicyDenied
         else if list_ex (\<lambda>r. hit r \<and> \<not> row_ok (f r)) rows \<or> \<not> distinct (map pk rows')
           then Inl ConstraintViolation
         else Inr rows')"

text \<open>
  The triggers \<open>update_conversations_updated_at\<close> and
  \<open>update_appointments_updated_at\<close> set \<open>updated_at\<close> to \<open>NOW()\<close>, the argument
  \<open>now\<close>, on every updated row.
\<close>

definition update_chat_conversations ::
  "uuid option \<Rightarrow> timestamptz \<Rightarrow> database \<Rightarrow> (chat_conversation \<Rightarrow> bool) \<Rightarrow>
     (chat_conversation \<Rightarrow> chat_conversation) \<Rightarrow> db_error option \<times> database" where
  "update_chat_conversations uid now db wher f =
     (case rls_update (participants_can_update_conversations uid) (chat_conversations_row_ok db)
             conv_id wher (\<lambda>c. (f c)\<lparr>conv_updated_at := Some now\<rparr>) (chat_conversations db) of
        Inl e \<Rightarrow> (Some e, db)
      | Inr rows \<Rightarrow> (None, db\<lparr>chat_conversations := rows\<rparr>))"

definition update_appointments ::
  "uuid option \<Rightarrow> timestamptz \<Rightarrow> database \<Rightarrow> (appointment \<Rightarrow> bool) \<Rightarrow>
     (appointment \<Rightarrow> appointment) \<Rightarrow> db_error option \<times> database" where
  "update_appointments uid now db wher f =
     (case rls_update (participants_can_update_appointments uid) (appointments_row_ok db)
             appt_id wher (\<lambda>a. (f a)\<lparr>appt_updated_at := Some now\<rparr>) (appointments db) of
        Inl e \<Rightarrow> (Some e, db)
      | Inr rows \<Rightarrow> (None, db\<lparr>appointments := rows\<rparr>))"

section \<open>The appointment join window\<close>

text \<open>
  \<open>canJoinCall\<close> of the appointment dashboard.  The row reaches the client as
  JSON, its two \<open>TIMESTAMPTZ\<close> columns as text, and the function reads them with
  \<open>new Date(text)\<close>.  A JavaScript date is a time value in milliseconds or
  Invalid Date, whose time value is \<open>NaN\<close>: here \<open>Some\<close> of the time value or
  \<open>None\<close>.  What \<open>new Date\<close> makes of the text of a stored instant is the
  argument \<open>new_Date\<close>.  \<open>new Date()\<close> is the valid date \<open>now\<close>.
  \<open>new Date(number)\<close> is invalid for \<open>NaN\<close> and beyond 8.64e15 milliseconds
  from the epoch; \<open>15 * 60000\<close> is the source's fifteen minutes.  A comparison
  with Invalid Date is false.
\<close>

definition TimeClip :: "int \<Rightarrow> int option" where
  "TimeClip v = (if \<bar>v\<bar> \<le> 8640000000000000 then Some v else None)"

definition date_ge :: "int option \<Rightarrow> int option \<Rightarrow> bool" where
  "date_ge x y = (case (x, y) of (Some v, Some w) \<Rightarrow> v \<ge> w | _ \<Rightarrow> False)"

definition date_le :: "int option \<Rightarrow> int option \<Rightarrow> bool" where
  "date_le x y = (case (x, y) of (Some v, Some w) \<Rightarrow> v \<le> w | _ \<Rightarrow> False)"

definition canJoinCall :: "(timestamptz \<Rightarrow> int option) \<Rightarrow> int \<Rightarrow> appointment \<Rightarrow> bool" where
  "canJoinCall new_Date now a =
     (let startTime = new_Date (appt_scheduled_start a);
          endTime = new_Date (appt_scheduled_end a);
          joinTime = (case startTime of None \<Rightarrow> None | Some s \<Rightarrow> TimeClip (s - 15 * 60000))
      in date_ge (Some now) joinTime \<and> date_le (Some now) endTime \<and>
         appt_status a \<noteq> Some ''cancelled'' \<and>
         appt_appointment_type a = Some ''video'')"

text \<open>
  The API sends a \<open>TIMESTAMPTZ\<close> as ISO 8601 text with the year in four digits.
  \<open>new Date\<close> reads such a text back to the instant it denotes.  The text of an
  instant before the year 1 or after the year 9999 is not in that format, and
  \<open>new Date\<close> gives Invalid Date for it.  The bounds are 0001-01-01 and
  10000-01-01, midnight UTC, in milliseconds.
\<close>

definition new_Date_of_timestamptz :: "timestamptz \<Rightarrow> int option" where
  "new_Date_of_timestamptz t =
     (if - 62135596800000 \<le> t \<and> t < 253402300800000 then Some t else None)"

definition minutes :: "int \<Rightarrow> int" where
  "minutes n = n * 60000"

section \<open>The client and the backend it talks to\<close>

text \<open>
  The backend is the database, the identity of the session the client's requests
  carry, and the requests the client has issued so far, in order.  A component is a
  pair of its React state and the backend.  Inside an asynchronous function each
  \<open>await\<close> finishes before the next statement starts, so the function is the
  composition of its steps; a call that its caller does not await is split into its
  request and the arrival of its answer further below.
  What a call cannot know in advance (a fresh \<open>gen_random_uuid()\<close>, the readings of
  \<open>NOW()\<close> and of \<open>new Date()\<close>, whether the network drops a request) is an
  argument of the function.
\<close>

datatype party_column = Student_id | Counselor_id

datatype request =
    Insert_chat_messages uuid uuid js_string
  | Update_chat_conversations_last_message_at uuid timestamptz
  | Select_chat_messages_of_conversation uuid
  | Select_chat_messages_by_id uuid
  | Select_chat_conversations party_column "uuid option"
  | Select_appointments party_column "uuid option"
  | Insert_appointments uuid string string string string

record server =
  srv_db :: database
  srv_auth_uid :: "uuid option"
  srv_log :: "request list"

definition issue :: "request \<Rightarrow> server \<Rightarrow> server" where
  "issue r srv = srv\<lparr>srv_log := srv_log srv @ [r]\<rparr>"

text \<open>
  An embedded \<open>profiles(*)\<close> resource: the profile the foreign key points to.
  Every profile is visible (\<open>Users can view all profiles\<close> is \<open>USING (TRUE)\<close>).
\<close>

definition embed_profile :: "database \<Rightarrow> uuid \<Rightarrow> profile option" where
  "embed_profile db i = find (\<lambda>p. prof_id p = i) (profiles db)"

type_synonym Message = "chat_message \<times> profile option"
type_synonym Conversation = "chat_conversation \<times> profile option \<times> profile option"
type_synonym Appointment = "appointment \<times> profile option \<times> profile option"

definition with_sender :: "database \<Rightarrow> chat_message \<Rightarrow> Message" where
  "with_sender db m = (m, embed_profile db (msg_sender_id m))"

definition with_parties_conv :: "database \<Rightarrow> chat_conversation \<Rightarrow> Conversation" where
  "with_parties_conv db c =
     (c, embed_profile db (conv_student_id c), embed_profile db (conv_counselor_id c))"

definition with_parties_appt :: "database \<Rightarrow> appointment \<Rightarrow> Appointment" where
  "with_parties_appt db a =
     (a, embed_profile db (appt_student_id a), embed_profile db (appt_counselor_id a))"

text \<open>\<open>.single()\<close>: an error unless the result has exactly one row.\<close>

definition single :: "'r list \<Rightarrow> db_error + 'r" where
  "single rows = (case rows of [r] \<Rightarrow> Inr r | _ \<Rightarrow> Inl NotSingleRow)"

text \<open>
  The read of one message by its id, as \<open>fetchMessageWithSender\<close> asks for it:
  \<open>.eq('id', messageId).single()\<close>.
\<close>

definition select_chat_message_by_id ::
  "uuid option \<Rightarrow> database \<Rightarrow> uuid \<Rightarrow> db_error + chat_message" where
  "select_chat_message_by_id uid db messageId =
     single (filter (\<lambda>m. msg_id m = messageId) (select_chat_messages uid db))"

text \<open>
  \<open>ORDER BY ... ASC\<close> puts \<open>NULL\<close> last and \<open>ORDER BY ... DESC\<close> puts it first.
\<close>

definition asc_key :: "timestamptz option \<Rightarrow> nat \<times> int" where
  "asc_key v = (case v of None \<Rightarrow> (1, 0) | Some t \<Rightarrow> (0, t))"

definition desc_key :: "timestamptz option \<Rightarrow> nat \<times> int" where
  "desc_key v = (case v of None \<Rightarrow> (0, 0) | Some t \<Rightarrow> (1, - t))"

section \<open>The chat component\<close>

text \<open>
  \<open>String.prototype.trim\<close> removes white space and line terminators from both
  ends of a string.
\<close>

definition isWhiteSpace :: "16 word \<Rightarrow> bool" where
  "isWhiteSpace c =
     (c \<in> {0x9, 0xA, 0xB, 0xC, 0xD, 0x20, 0xA0, 0x1680, 0x2028, 0x2029, 0x202F, 0x205F,
           0x3000, 0xFEFF} \<or> (0x2000 \<le> c \<and> c \<le> 0x200A))"

definition trim :: "js_string \<Rightarrow> js_string" where
  "trim s = rev (dropWhile isWhiteSpace (rev (dropWhile isWhiteSpace s)))"

definition js :: "string \<Rightarrow> js_string" where
  "js s = map of_char s"

record chat_ui =
  conversations :: "Conversation list"
  selectedConversation :: "uuid option"
  messages :: "Message list"
  newMessage :: js_string
  chat_loading :: bool
  chat_profile :: "profile option"
  chat_toasts :: "(string \<times> string) list"

text \<open>\<open>!selectedConversation\<close> holds for \<open>null\<close> and for the empty string.\<close>

definition falsy :: "string option \<Rightarrow> bool" where
  "falsy v = (case v of None \<Rightarrow> True | Some s \<Rightarrow> s = [])"

text \<open>
  \<open>fetchConversations\<close>: the role decides the column the list is filtered by.
  \<open>profile?.id\<close> is \<open>undefined\<close> without a profile, which is no valid identifier.
\<close>

definition fetchConversations_filter :: "profile option \<Rightarrow> party_column \<times> uuid option" where
  "fetchConversations_filter pr =
     (case pr of
        Some p \<Rightarrow> if prof_role p = Some Student then (Student_id, Some (prof_id p))
                  else (Counselor_id, Some (prof_id p))
      | None \<Rightarrow> (Counselor_id, None))"

definition conv_column :: "party_column \<Rightarrow> chat_conversation \<Rightarrow> uuid" where
  "conv_column col c = (case col of Student_id \<Rightarrow> conv_student_id c | Counselor_id \<Rightarrow> conv_counselor_id c)"

definition query_chat_conversations ::
  "server \<Rightarrow> party_column \<times> uuid option \<Rightarrow> db_error + Conversation list" where
  "query_chat_conversations srv flt =
     (case snd flt of
        None \<Rightarrow> Inl InvalidInput
      | Some i \<Rightarrow>
          Inr (map (with_parties_conv (srv_db srv))
                (sort_key (\<lambda>c. desc_key (conv_last_message_at c))
                  (filter (\<lambda>c. conv_column (fst flt) c = i)
                    (select_chat_conversations (srv_auth_uid srv) (srv_db srv))))))"

definition fetchConversations :: "bool \<Rightarrow> chat_ui \<times> server \<Rightarrow> chat_ui \<times> server" where
  "fetchConversations network_failure = (\<lambda>(ui, srv).
     let flt = fetchConversations_filter (chat_profile ui);
         srv1 = issue (Select_chat_conversations (fst flt) (snd flt)) srv
     in case (if network_failure then Inl NetworkFailure else query_chat_conversations srv flt) of
          Inl e \<Rightarrow>
            (ui\<lparr>chat_toasts := chat_toasts ui @ [(''Error'', ''Failed to load conversations'')],
                chat_loading := False\<rparr>, srv1)
        | Inr rows \<Rightarrow> (ui\<lparr>conversations := rows, chat_loading := False\<rparr>, srv1))"

text \<open>\<open>fetchMessages\<close>: the history of one conversation, oldest first.\<close>

definition fetchMessages :: "bool \<Rightarrow> uuid \<Rightarrow> chat_ui \<times> server \<Rightarrow> chat_ui \<times> server" where
  "fetchMessages network_failure conversationId = (\<lambda>(ui, srv).
     let srv1 = issue (Select_chat_messages_of_conversation conversationId) srv
     in if network_failure then (ui, srv1)
        else (ui\<lparr>messages :=
                  map (with_sender (srv_db srv))
                    (sort_key (\<lambda>m. asc_key (msg_created_at m))
                      (filter (\<lambda>m. msg_conversation_id m = conversationId)
                        (select_chat_messages (srv_auth_uid srv) (srv_db srv))))\<rparr>, srv1))"

text \<open>
  \<open>fetchMessageWithSender\<close>: one row by id with \<open>.single()\<close>; on success it is
  appended to the previous list, on an error the list stays.
\<close>

definition fetchMessageWithSender :: "bool \<Rightarrow> uuid \<Rightarrow> chat_ui \<times> server \<Rightarrow> chat_ui \<times> server" where
  "fetchMessageWithSender network_failure messageId = (\<lambda>(ui, srv).
     let srv1 = issue (Select_chat_messages_by_id messageId) srv
     in case (if network_failure then Inl NetworkFailure
              else single (filter (\<lambda>m. msg_id m = messageId)
                             (select_chat_messages (srv_auth_uid srv) (srv_db srv)))) of
          Inl e \<Rightarrow> (ui, srv1)
        | Inr m \<Rightarrow> (ui\<lparr>messages := messages ui @ [with_sender (srv_db srv) m]\<rparr>, srv1))"

text \<open>
  The realtime subscription of the selected conversation hands every \<open>INSERT\<close>
  payload to \<open>fetchMessageWithSender\<close>.
\<close>

definition on_insert :: "chat_message \<Rightarrow> chat_ui \<times> server \<Rightarrow> chat_ui \<times> server" where
  "on_insert payload_new = fetchMessageWithSender False (msg_id payload_new)"

text \<open>
  Neither \<open>fetchMessages\<close> nor \<open>fetchMessageWithSender\<close> is awaited by its caller:
  the effect of the selected conversation and the handler of the realtime
  subscription start the fetch and return.  Each fetch is therefore two steps, the
  request, which the database answers from its rows at that time, and, later, the
  arrival of the answer, which alone changes the list.  A function as defined
  above is its request followed at once by the arrival of its answer.
\<close>

definition fetchMessages_request ::
  "bool \<Rightarrow> uuid \<Rightarrow> server \<Rightarrow> (db_error + Message list) \<times> server" where
  "fetchMessages_request network_failure conversationId srv =
     (if network_failure then Inl NetworkFailure
      else Inr (map (with_sender (srv_db srv))
                 (sort_key (\<lambda>m. asc_key (msg_created_at m))
                   (filter (\<lambda>m. msg_conversation_id m = conversationId)
                     (select_chat_messages (srv_auth_uid srv) (srv_db srv))))),
      issue (Select_chat_messages_of_conversation conversationId) srv)"

definition fetchMessages_answer :: "db_error + Message list \<Rightarrow> chat_ui \<Rightarrow> chat_ui" where
  "fetchMessages_answer answer ui =
     (case answer of Inl e \<Rightarrow> ui | Inr rows \<Rightarrow> ui\<lparr>messages := rows\<rparr>)"

definition fetchMessageWithSender_request ::
  "bool \<Rightarrow> uuid \<Rightarrow> server \<Rightarrow> (db_error + Message) \<times> server" where
  "fetchMessageWithSender_request network_failure messageId srv =
     (if network_failure then Inl NetworkFailure
      else map_sum id (with_sender (srv_db srv))
             (select_chat_message_by_id (srv_auth_uid srv) (srv_db srv) messageId),
      issue (Select_chat_messages_by_id messageId) srv)"

definition fetchMessageWithSender_answer :: "db_error + Message \<Rightarrow> chat_ui \<Rightarrow> chat_ui" where
  "fetchMessageWithSender_answer answer ui =
     (case answer of Inl e \<Rightarrow> ui | Inr row \<Rightarrow> ui\<lparr>messages := messages ui @ [row]\<rparr>)"

text \<open>
  What happens to the chat component, one event at a time.  \<open>Effect\<close> is the effect
  of the selected conversation: it requests the history.  \<open>Stored\<close> is a message
  written to the database by some session.  \<open>Notification\<close> is an \<open>INSERT\<close> payload
  handed to the subscription's handler: it requests the row by id.  \<open>Arrival i\<close> is
  the arrival of the answer that is the \<open>i\<close>-th of those still under way.  The
  answers under way stand in the order of their requests.
\<close>

datatype answer = History "db_error + Message list" | Row "db_error + Message"

datatype event = Effect | Stored chat_message | Notification chat_message | Arrival nat

definition arrive :: "answer \<Rightarrow> chat_ui \<Rightarrow> chat_ui" where
  "arrive a ui =
     (case a of History h \<Rightarrow> fetchMessages_answer h ui
      | Row r \<Rightarrow> fetchMessageWithSender_answer r ui)"

fun step :: "event \<Rightarrow> chat_ui \<times> answer list \<times> server \<Rightarrow> chat_ui \<times> answer list \<times> server" where
  "step Effect (ui, under_way, srv) =
     (case selectedConversation ui of
        None \<Rightarrow> (ui, under_way, srv)
      | Some cid \<Rightarrow>
          if cid = [] then (ui, under_way, srv)
          else (ui, under_way @ [History (fst (fetchMessages_request False cid srv))],
                snd (fetchMessages_request False cid srv)))"
| "step (Stored m) (ui, under_way, srv) =
     (ui, under_way,
      srv\<lparr>srv_db := (srv_db srv)\<lparr>chat_messages := chat_messages (srv_db srv) @ [m]\<rparr>\<rparr>)"
| "step (Notification payload_new) (ui, under_way, srv) =
     (ui,
      under_way @ [Row (fst (fetchMessageWithSender_request False (msg_id payload_new) srv))],
      snd (fetchMessageWithSender_request False (msg_id payload_new) srv))"
| "step (Arrival i) (ui, under_way, srv) =
     (if i < length under_way
      then (arrive (under_way ! i) ui, take i under_way @ drop (Suc i) under_way, srv)
      else (ui, under_way, srv))"

definition run :: "event list \<Rightarrow> chat_ui \<times> answer list \<times> server \<Rightarrow> chat_ui \<times> answer list \<times> server" where
  "run events = fold step events"

text \<open>Every notification answered before the next one is handled.\<close>

definition answered_in_turn :: "chat_message list \<Rightarrow> event list" where
  "answered_in_turn payloads = concat (map (\<lambda>m. [Notification m, Arrival 0]) payloads)"

text \<open>
  \<open>sendMessage\<close>.  The insert sends four columns; the table's defaults fill the
  rest of the row.  The content travels as a JSON string and is converted to \<open>TEXT\<close>
  before the statement runs: a string that holds the code unit 0, or a surrogate
  code unit without its partner, cannot be converted, and the request is refused.
\<close>

definition is_high_surrogate :: "16 word \<Rightarrow> bool" where
  "is_high_surrogate c = (0xD800 \<le> c \<and> c \<le> 0xDBFF)"

definition is_low_surrogate :: "16 word \<Rightarrow> bool" where
  "is_low_surrogate c = (0xDC00 \<le> c \<and> c \<le> 0xDFFF)"

fun well_formed_utf16 :: "js_string \<Rightarrow> bool" where
  "well_formed_utf16 [] = True"
| "well_formed_utf16 [c] = (\<not> is_high_surrogate c \<and> \<not> is_low_surrogate c)"
| "well_formed_utf16 (c # d # cs) =
     (if is_high_surrogate c then is_low_surrogate d \<and> well_formed_utf16 cs
      else \<not> is_low_surrogate c \<and> well_formed_utf16 (d # cs))"

definition text_ok :: "js_string \<Rightarrow> bool" where
  "text_ok s = (0 \<notin> set s \<and> well_formed_utf16 s)"

definition new_chat_message ::
  "uuid \<Rightarrow> timestamptz \<Rightarrow> uuid \<Rightarrow> uuid \<Rightarrow> js_string \<Rightarrow> chat_message" where
  "new_chat_message new_id now cid sid content =
     \<lparr>msg_id = new_id, msg_conversation_id = cid, msg_sender_id = sid,
      msg_message_type = Some ''text'', msg_content = Some content, msg_file_url = None,
      msg_file_name = None, msg_status = Some ''sent'', msg_read_at = None,
      msg_created_at = Some now\<rparr>"

definition post_chat_messages ::
  "uuid option \<Rightarrow> database \<Rightarrow> uuid \<Rightarrow> timestamptz \<Rightarrow> uuid \<Rightarrow> uuid \<Rightarrow> js_string \<Rightarrow>
     db_error option \<times> database" where
  "post_chat_messages uid db new_id now cid sid content =
     (if \<not> text_ok content then (Some InvalidInput, db)
      else insert_chat_messages uid db (new_chat_message new_id now cid sid content))"

text \<open>
  The client acts on the answer it receives.  The request may be lost before it
  reaches the database, or the database may run it and the answer be lost; in both
  cases the client is handed an error.  The answer of the update is not looked at,
  so for the update only the loss of the request matters.
\<close>

datatype network = Answered | Request_lost | Reply_lost

record send_env =
  insert_network :: network
  insert_uuid :: uuid
  insert_now :: timestamptz
  client_now :: timestamptz
  update_network_failure :: bool
  update_now :: timestamptz

definition sendMessage :: "send_env \<Rightarrow> chat_ui \<times> server \<Rightarrow> chat_ui \<times> server" where
  "sendMessage e = (\<lambda>(ui, srv).
     if trim (newMessage ui) = [] \<or> falsy (selectedConversation ui) \<or> chat_profile ui = None
     then (ui, srv)
     else
       case (selectedConversation ui, chat_profile ui) of
         (Some cid, Some p) \<Rightarrow>
           let content = trim (newMessage ui);
               srv1 = issue (Insert_chat_messages cid (prof_id p) content) srv;
               ran = post_chat_messages (srv_auth_uid srv) (srv_db srv) (insert_uuid e)
                       (insert_now e) cid (prof_id p) content;
               ins = (case insert_network e of
                        Answered \<Rightarrow> ran
                      | Request_lost \<Rightarrow> (Some NetworkFailure, srv_db srv)
                      | Reply_lost \<Rightarrow> (Some NetworkFailure, snd ran))
           in (case fst ins of
                 Some err \<Rightarrow>
                   (ui\<lparr>chat_toasts := chat_toasts ui @ [(''Error'', ''Failed to send message'')]\<rparr>,
                    srv1\<lparr>srv_db := snd ins\<rparr>)
               | None \<Rightarrow>
                   let stamp = client_now e;
                       srv2 = issue (Update_chat_conversations_last_message_at cid stamp)
                                (srv1\<lparr>srv_db := snd ins\<rparr>);
                       db2 = (if update_network_failure e then srv_db srv2
                              else snd (update_chat_conversations (srv_auth_uid srv2) (update_now e)
                                          (srv_db srv2) (\<lambda>c. conv_id c = cid)
                                          (\<lambda>c. c\<lparr>conv_last_message_at := Some stamp\<rparr>)))
                   in (ui\<lparr>newMessage := []\<rparr>, srv2\<lparr>srv_db := db2\<rparr>))
       | _ \<Rightarrow> (ui, srv))"

section \<open>The appointment dashboard\<close>

datatype appointment_type = Video | Chat | In_person

definition appointment_type_text :: "appointment_type \<Rightarrow> string" where
  "appointment_type_text t = (case t of Video \<Rightarrow> ''video'' | Chat \<Rightarrow> ''chat'' | In_person \<Rightarrow> ''in_person'')"

record appointment_form =
  form_counselor_id :: string
  form_appointment_type :: appointment_type
  form_scheduled_start :: string
  form_scheduled_end :: string
  form_reason_for_visit :: string
  form_is_emergency :: bool

definition empty_form :: appointment_form where
  "empty_form =
     \<lparr>form_counselor_id = [], form_appointment_type = Video, form_scheduled_start = [],
      form_scheduled_end = [], form_reason_for_visit = [], form_is_emergency = False\<rparr>"

record dashboard_ui =
  dash_appointments :: "Appointment list"
  counselors :: "profile list"
  dash_loading :: bool
  showCreateDialog :: bool
  createLoading :: bool
  dash_profile :: "profile option"
  appointmentForm :: appointment_form
  dash_toasts :: "(string \<times> string) list"

text \<open>\<open>fetchAppointments\<close>: the same role test as \<open>fetchConversations\<close>.\<close>

definition fetchAppointments_filter :: "profile option \<Rightarrow> party_column \<times> uuid option" where
  "fetchAppointments_filter pr =
     (case pr of
        Some p \<Rightarrow> if prof_role p = Some Student then (Student_id, Some (prof_id p))
                  else (Counselor_id, Some (prof_id p))
      | None \<Rightarrow> (Counselor_id, None))"

definition appt_column :: "party_column \<Rightarrow> appointment \<Rightarrow> uuid" where
  "appt_column col a = (case col of Student_id \<Rightarrow> appt_student_id a | Counselor_id \<Rightarrow> appt_counselor_id a)"

definition query_appointments ::
  "server \<Rightarrow> party_column \<times> uuid option \<Rightarrow> db_error + Appointment list" where
  "query_appointments srv flt =
     (case snd flt of
        None \<Rightarrow> Inl InvalidInput
      | Some i \<Rightarrow>
          Inr (map (with_parties_appt (srv_db srv))
                (sort_key appt_scheduled_start
                  (filter (\<lambda>a. appt_column (fst flt) a = i)
                    (select_appointments (srv_auth_uid srv) (srv_db srv))))))"

definition fetchAppointments :: "bool \<Rightarrow> dashboard_ui \<times> server \<Rightarrow> dashboard_ui \<times> server" where
  "fetchAppointments network_failure = (\<lambda>(ui, srv).
     let flt = fetchAppointments_filter (dash_profile ui);
         srv1 = issue (Select_appointments (fst flt) (snd flt)) srv
     in case (if network_failure then Inl NetworkFailure else query_appointments srv flt) of
          Inl e \<Rightarrow>
            (ui\<lparr>dash_toasts := dash_toasts ui @ [(''Error'', ''Failed to load appointments'')],
                dash_loading := False\<rparr>, srv1)
        | Inr rows \<Rightarrow> (ui\<lparr>dash_appointments := rows, dash_loading := False\<rparr>, srv1))"

text \<open>
  \<open>createAppointment\<close>.  The form holds the two \<open>datetime-local\<close> values as
  strings; the database converts them on input, by \<open>parse_timestamptz\<close>, which
  is an argument.  The only test before the insert is that the profile and three
  form fields are present.  \<open>Date.now()\<close> is printed in decimal into the meeting
  link.
\<close>

fun show_nat :: "nat \<Rightarrow> string" where
  "show_nat n =
     (if n < 10 then [char_of (48 + n)] else show_nat (n div 10) @ [char_of (48 + n mod 10)])"

declare show_nat.simps [simp del]

definition show_int :: "int \<Rightarrow> string" where
  "show_int i = (if i < 0 then ''-'' @ show_nat (nat (- i)) else show_nat (nat i))"

record create_env =
  create_network_failure :: bool
  parse_timestamptz :: "string \<Rightarrow> timestamptz option"
  date_now :: int
  create_uuid :: uuid
  create_now :: timestamptz
  refetch_network_failure :: bool

definition new_appointment ::
  "uuid \<Rightarrow> timestamptz \<Rightarrow> uuid \<Rightarrow> appointment_form \<Rightarrow> timestamptz \<Rightarrow> timestamptz \<Rightarrow>
     string option \<Rightarrow> appointment" where
  "new_appointment new_id now sid f start_ts end_ts meetingUrl =
     \<lparr>appt_id = new_id, appt_student_id = sid, appt_counselor_id = form_counselor_id f,
      appt_conversation_id = None,
      appt_appointment_type = Some (appointment_type_text (form_appointment_type f)),
      appt_status = Some ''scheduled'', appt_scheduled_start = start_ts,
      appt_scheduled_end = end_ts, appt_meeting_url = meetingUrl, appt_notes = None,
      appt_reason_for_visit = Some (form_reason_for_visit f),
      appt_is_emergency = Some (form_is_emergency f), appt_created_at = Some now,
      appt_updated_at = Some now\<rparr>"

definition createAppointment ::
  "create_env \<Rightarrow> dashboard_ui \<times> server \<Rightarrow> dashboard_ui \<times> server" where
  "createAppointment e = (\<lambda>(ui, srv).
     let f = appointmentForm ui in
     case dash_profile ui of
       None \<Rightarrow>
         (ui\<lparr>dash_toasts := dash_toasts ui @ [(''Error'', ''Please fill in all required fields'')]\<rparr>,
          srv)
     | Some p \<Rightarrow>
         if form_counselor_id f = [] \<or> form_scheduled_start f = [] \<or> form_scheduled_end f = []
         then (ui\<lparr>dash_toasts :=
                     dash_toasts ui @ [(''Error'', ''Please fill in all required fields'')]\<rparr>, srv)
         else
           let meetingUrl = (if form_appointment_type f = Video
                             then Some (''https://meet.jit.si/sathi-appointment-'' @ show_int (date_now e))
                             else None);
               srv1 = issue (Insert_appointments (prof_id p) (form_counselor_id f)
                                  (appointment_type_text (form_appointment_type f))
                                  (form_scheduled_start f) (form_scheduled_end f)) srv;
               ins = (if create_network_failure e then (Some NetworkFailure, srv_db srv)
                      else case (parse_timestamptz e (form_scheduled_start f),
                                 parse_timestamptz e (form_scheduled_end f)) of
                             (Some start_ts, Some end_ts) \<Rightarrow>
                               insert_appointments (srv_auth_uid srv) (srv_db srv)
                                 (new_appointment (create_uuid e) (create_now e) (prof_id p) f
                                    start_ts end_ts meetingUrl)
                           | _ \<Rightarrow> (Some InvalidInput, srv_db srv))
           in (case fst ins of
                 Some err \<Rightarrow>
                   (ui\<lparr>dash_toasts := dash_toasts ui @ [(''Error'', ''Failed to create appointment'')],
                       createLoading := False\<rparr>, srv1)
               | None \<Rightarrow>
                   fetchAppointments (refetch_network_failure e)
                     (ui\<lparr>dash_toasts :=
                           dash_toasts ui @ [(''Success'', ''Appointment created successfully'')],
                         showCreateDialog := False, appointmentForm := empty_form,
                         createLoading := False\<rparr>,
                      srv1\<lparr>srv_db := snd ins\<rparr>)))"

section \<open>Sample data\<close>

text \<open>
  A student \<open>s1\<close>, a counselor \<open>k1\<close> and a third profile \<open>x3\<close> with the admin
  role; one conversation and one appointment between \<open>s1\<close> and \<open>k1\<close>; one
  message \<open>Hello\<close> from the student.
\<close>

definition demo_profile :: "uuid \<Rightarrow> user_role \<Rightarrow> profile" where
  "demo_profile i r =
     \<lparr>prof_id = i, prof_email = i @ ''@example.org'', prof_first_name = ''F'',
      prof_last_name = ''L'', prof_phone = None, prof_profile_image_url = None,
      prof_role = Some r, prof_is_active = Some True, prof_last_login_at = None,
      prof_created_at = Some 0, prof_updated_at = Some 0\<rparr>"

definition demo_appointment :: appointment where
  "demo_appointment =
     \<lparr>appt_id = ''a1'', appt_student_id = ''s1'', appt_counselor_id = ''k1'',
      appt_conversation_id = None, appt_appointment_type = Some ''video'',
      appt_status = Some ''scheduled'', appt_scheduled_start = 3600000,
      appt_scheduled_end = 5400000, appt_meeting_url = None, appt_notes = None,
      appt_reason_for_visit = None, appt_is_emergency = Some False,
      appt_created_at = Some 0, appt_updated_at = Some 0\<rparr>"

definition demo_conversation :: chat_conversation where
  "demo_conversation =
     \<lparr>conv_id = ''c1'', conv_student_id = ''s1'', conv_counselor_id = ''k1'',
      conv_conversation_type = Some ''support'', conv_status = Some ''active'',
      conv_started_at = Some 0, conv_last_message_at = Some 0, conv_created_at = Some 0,
      conv_updated_at = Some 0\<rparr>"

definition demo_message :: chat_message where
  "demo_message = new_chat_message ''m1'' 1000 ''c1'' ''s1'' (js ''Hello'')"

definition demo_db :: database where
  "demo_db =
     \<lparr>profiles = [demo_profile ''s1'' Student, demo_profile ''k1'' Counselor,
                  demo_profile ''x3'' Admin],
      chat_conversations = [demo_conversation],
      chat_messages = [demo_message],
      appointments = [demo_appointment]\<rparr>"

definition demo_server :: "uuid \<Rightarrow> server" where
  "demo_server u = \<lparr>srv_db = demo_db, srv_auth_uid = Some u, srv_log = []\<rparr>"

definition backwards_appointment :: appointment where
  "backwards_appointment =
     demo_appointment\<lparr>appt_id := ''a2'', appt_scheduled_start := 5400000,
       appt_scheduled_end := 3600000\<rparr>"

text \<open>
  A stand-in for the database's conversion of a \<open>datetime-local\<close> string, defined
  on the two strings the sample form holds.
\<close>

definition demo_parse_timestamptz :: "string \<Rightarrow> timestamptz option" where
  "demo_parse_timestamptz s =
     (if s = ''2025-01-01T10:00'' then Some 1735725600000
      else if s = ''2025-01-01T09:00'' then Some 1735722000000
      else None)"

definition demo_create_env :: create_env where
  "demo_create_env =
     \<lparr>create_network_failure = False, parse_timestamptz = demo_parse_timestamptz,
      date_now = 1735700000000, create_uuid = ''a2'', create_now = 1735700000100,
      refetch_network_failure = False\<rparr>"

definition demo_dashboard :: dashboard_ui where
  "demo_dashboard =
     \<lparr>dash_appointments = [], counselors = [demo_profile ''k1'' Counselor], dash_loading = False,
      showCreateDialog = True, createLoading = False,
      dash_profile = Some (demo_profile ''s1'' Student),
      appointmentForm =
        \<lparr>form_counselor_id = ''k1'', form_appointment_type = Video,
         form_scheduled_start = ''2025-01-01T10:00'', form_scheduled_end = ''2025-01-01T09:00'',
         form_reason_for_visit = ''exam stress'', form_is_emergency = False\<rparr>,
      dash_toasts = []\<rparr>"

definition demo_chat :: "js_string \<Rightarrow> chat_ui" where
  "demo_chat txt =
     \<lparr>conversations = [], selectedConversation = Some ''c1'', messages = [],
      newMessage = txt, chat_loading = False,
      chat_profile = Some (demo_profile ''s1'' Student), chat_toasts = []\<rparr>"

definition demo_send_env :: send_env where
  "demo_send_env =
     \<lparr>insert_network = Answered, insert_uuid = ''m2'', insert_now = 2000,
      client_now = 2005, update_network_failure = False, update_now = 2010\<rparr>"

definition demo_reply :: chat_message where
  "demo_reply = new_chat_message ''m0'' 500 ''c1'' ''k1'' (js ''Welcome'')"

definition demo_server2 :: "uuid \<Rightarrow> server" where
  "demo_server2 u =
     \<lparr>srv_db = demo_db\<lparr>chat_messages := [demo_message, demo_reply]\<rparr>,
      srv_auth_uid = Some u, srv_log = []\<rparr>"

text \<open>
  A scheduled video appointment that starts on 10000-01-02 at midnight UTC and lasts
  thirty minutes.
\<close>

definition far_appointment :: appointment where
  "far_appointment =
     demo_appointment\<lparr>appt_id := ''a9'', appt_scheduled_start := 253402387200000,
       appt_scheduled_end := 253402389000000\<rparr>"

definition appointment_a1 :: "appointment \<Rightarrow> bool" where
  "appointment_a1 a = (appt_id a = ''a1'')"

definition cancel :: "appointment \<Rightarrow> appointment" where
  "cancel a = a\<lparr>appt_status := Some ''cancelled''\<rparr>"

definition demo_late :: chat_message where
  "demo_late = new_chat_message ''m3'' 3000 ''c1'' ''s1'' (js ''Later'')"

section \<open>Theorems\<close>

text \<open>
  C4, as stated, does not hold for every appointment.  For the appointment that
  starts on 10000-01-02, at its start the time is within fifteen minutes before the
  start and the end, the status is scheduled and the type is video, yet
  \<open>canJoinCall\<close> is false: \<open>new Date\<close> cannot read the two columns.
\<close>

theorem canJoinCall_invalid_date_counterexample:
  "\<not> canJoinCall new_Date_of_timestamptz 253402387200000 far_appointment
   \<and> 253402387200000 \<ge> appt_scheduled_start far_appointment - minutes 15
   \<and> 253402387200000 \<le> appt_scheduled_end far_appointment
   \<and> appt_status far_appointment \<noteq> Some ''cancelled''
   \<and> appt_appointment_type far_appointment = Some ''video''"
  by (simp add: canJoinCall_def new_Date_of_timestamptz_def far_appointment_def
        demo_appointment_def minutes_def Let_def date_ge_def date_le_def)

text \<open>
  C4, amended.  For every appointment and every current time, \<open>canJoinCall\<close> is true
  exactly when \<open>new Date\<close> reads the scheduled start and the scheduled end as
  valid dates \<open>S\<close> and \<open>E\<close>, \<open>S\<close> minus fifteen minutes is a valid date, the time
  is at least \<open>S\<close> minus fifteen minutes and at most \<open>E\<close>, the status is not
  cancelled and the type is video; it is false when either column is read as Invalid
  Date.  Where the two columns are read as the stored instants, this is the
  condition on the stored start and end; for a scheduled video appointment from
  \<open>T\<close> to \<open>T + 30m\<close> it is then true on all of \<open>[T - 15m, T + 30m]\<close> and false at
  \<open>T - 16m\<close>, at \<open>T + 31m\<close> and once the status is cancelled.  The result depends
  only on the clock and on the four columns read: two rows that agree on them get
  the same answer.
\<close>

theorem canJoinCall_window:
  "(canJoinCall nd t a \<longleftrightarrow>
      (\<exists>s e. nd (appt_scheduled_start a) = Some s \<and> nd (appt_scheduled_end a) = Some e \<and>
             \<bar>s - minutes 15\<bar> \<le> 8640000000000000 \<and> t \<ge> s - minutes 15 \<and> t \<le> e) \<and>
      appt_status a \<noteq> Some ''cancelled'' \<and> appt_appointment_type a = Some ''video'')
   \<and> (nd (appt_scheduled_start a) = None \<or> nd (appt_scheduled_end a) = None \<longrightarrow>
        \<not> canJoinCall nd t a)
   \<and> (nd (appt_scheduled_start a) = Some (appt_scheduled_start a) \<and>
       nd (appt_scheduled_end a) = Some (appt_scheduled_end a) \<and>
       \<bar>appt_scheduled_start a - minutes 15\<bar> \<le> 8640000000000000 \<longrightarrow>
        (canJoinCall nd t a \<longleftrightarrow>
           t \<ge> appt_scheduled_start a - minutes 15 \<and> t \<le> appt_scheduled_end a \<and>
           appt_status a \<noteq> Some ''cancelled'' \<and> appt_appointment_type a = Some ''video''))
   \<and> (nd (appt_scheduled_start a) = Some (appt_scheduled_start a) \<and>
       nd (appt_scheduled_end a) = Some (appt_scheduled_end a) \<and>
       \<bar>appt_scheduled_start a - minutes 15\<bar> \<le> 8640000000000000 \<and>
       appt_scheduled_end a = appt_scheduled_start a + minutes 30 \<and>
       appt_appointment_type a = Some ''video'' \<and> appt_status a = Some ''scheduled'' \<longrightarrow>
          (\<forall>u. appt_scheduled_start a - minutes 15 \<le> u \<and>
                u \<le> appt_scheduled_start a + minutes 30 \<longrightarrow> canJoinCall nd u a) \<and>
          \<not> canJoinCall nd (appt_scheduled_start a - minutes 16) a \<and>
          \<not> canJoinCall nd (appt_scheduled_start a + minutes 31) a)
   \<and> (\<forall>u. \<not> canJoinCall nd u (a\<lparr>appt_status := Some ''cancelled''\<rparr>))
   \<and> (appt_scheduled_start a = appt_scheduled_start b \<and>
        appt_scheduled_end a = appt_scheduled_end b \<and>
        appt_status a = appt_status b \<and>
        appt_appointment_type a = appt_appointment_type b \<longrightarrow>
          canJoinCall nd t a = canJoinCall nd t b)"
proof -
  have iff: "canJoinCall nd u r \<longleftrightarrow>
      (\<exists>s e. nd (appt_scheduled_start r) = Some s \<and> nd (appt_scheduled_end r) = Some e \<and>
             \<bar>s - minutes 15\<bar> \<le> 8640000000000000 \<and> u \<ge> s - minutes 15 \<and> u \<le> e) \<and>
      appt_status r \<noteq> Some ''cancelled'' \<and> appt_appointment_type r = Some ''video''" for u r
    by (cases "nd (appt_scheduled_start r)"; cases "nd (appt_scheduled_end r)")
       (auto simp: canJoinCall_def Let_def date_ge_def date_le_def TimeClip_def minutes_def)
  show ?thesis
    unfolding iff by (auto simp: minutes_def)
qed

theorem canJoinCall_window_witness:
  "canJoinCall new_Date_of_timestamptz 2700000 demo_appointment \<and>
   canJoinCall new_Date_of_timestamptz 5400000 demo_appointment \<and>
   \<not> canJoinCall new_Date_of_timestamptz 2640000 demo_appointment \<and>
   \<not> canJoinCall new_Date_of_timestamptz 5460000 demo_appointment \<and>
   \<not> canJoinCall new_Date_of_timestamptz 3600000
       (demo_appointment\<lparr>appt_status := Some ''cancelled''\<rparr>) \<and>
   canJoinCall new_Date_of_timestamptz 3600000
     (demo_appointment\<lparr>appt_notes := Some ''bring forms''\<rparr>) \<and>
   \<not> canJoinCall new_Date_of_timestamptz 253402387200000 far_appointment"
proof -
  have d: "new_Date_of_timestamptz (appt_scheduled_start demo_appointment)
             = Some (appt_scheduled_start demo_appointment)"
    "new_Date_of_timestamptz (appt_scheduled_end demo_appointment)
             = Some (appt_scheduled_end demo_appointment)"
    "new_Date_of_timestamptz (appt_scheduled_start far_appointment) = None"
    by (simp_all add: new_Date_of_timestamptz_def demo_appointment_def far_appointment_def)
  show ?thesis
    using canJoinCall_window [of new_Date_of_timestamptz 2700000 demo_appointment
          "demo_appointment\<lparr>appt_notes := Some ''bring forms''\<rparr>"]
        canJoinCall_window [of new_Date_of_timestamptz 3600000 demo_appointment
          "demo_appointment\<lparr>appt_notes := Some ''bring forms''\<rparr>"]
        canJoinCall_window [of new_Date_of_timestamptz 253402387200000 far_appointment
          far_appointment] d
    by (simp add: demo_appointment_def minutes_def)
qed

subsection \<open>Rows found by a unique key\<close>

lemma list_ex_unique_key:
  assumes "distinct (map k xs)" and "x \<in> set xs"
  shows "list_ex (\<lambda>y. k y = k x \<and> P y) xs = P x"
proof -
  have "inj_on k (set xs)" using assms(1) by (simp add: distinct_map)
  then have "\<And>y. y \<in> set xs \<Longrightarrow> k y = k x \<Longrightarrow> y = x"
    using assms(2) by (auto dest: inj_onD)
  then show ?thesis using assms(2) by (auto simp: list_ex_iff)
qed

lemma filter_unique_key:
  assumes "distinct (map k xs)" and "x \<in> set xs"
  shows "filter (\<lambda>y. k y = k x) xs = [x]"
  using assms
proof (induction xs)
  case Nil then show ?case by simp
next
  case (Cons a xs)
  show ?case
  proof (cases "a = x")
    case True
    have "k x \<notin> k ` set xs" using Cons.prems(1) True by simp
    then have "\<forall>y\<in>set xs. k y \<noteq> k x" by (metis imageI)
    then have "filter (\<lambda>y. k y = k x) xs = []" by (simp add: filter_empty_conv)
    with True show ?thesis by simp
  next
    case False
    then have x: "x \<in> set xs" using Cons.prems(2) by simp
    then have "k a \<noteq> k x" using Cons.prems(1) by force
    moreover have "filter (\<lambda>y. k y = k x) xs = [x]" using Cons.IH Cons.prems(1) x by simp
    ultimately show ?thesis by simp
  qed
qed

lemma message_policy_subquery:
  assumes "C \<in> set convs" and "distinct (map conv_id convs)" and "msg_conversation_id M = conv_id C"
  shows "list_ex (\<lambda>c. conv_id c = msg_conversation_id M \<and>
                  (auth_uid_is uid (conv_student_id c) \<or> auth_uid_is uid (conv_counselor_id c))) convs
         = (uid = Some (conv_student_id C) \<or> uid = Some (conv_counselor_id C))"
  using list_ex_unique_key [OF assms(2) assms(1), of "\<lambda>c. auth_uid_is uid (conv_student_id c) \<or> auth_uid_is uid (conv_counselor_id c)"]
  by (simp add: assms(3) auth_uid_is_def)

lemma select_chat_messages_filter_id:
  assumes "distinct (map msg_id (chat_messages db))" and "M \<in> set (chat_messages db)"
  shows "filter (\<lambda>m. msg_id m = msg_id M) (select_chat_messages uid db) =
           (if users_can_view_messages_in_their_conversations uid (chat_conversations db) M
            then [M] else [])"
proof -
  let ?P = "users_can_view_messages_in_their_conversations uid (chat_conversations db)"
  have "filter (\<lambda>m. msg_id m = msg_id M) (filter ?P (chat_messages db)) =
        filter ?P (filter (\<lambda>m. msg_id m = msg_id M) (chat_messages db))"
    by (simp add: conj_commute)
  also have "\<dots> = filter ?P [M]"
    using filter_unique_key [OF assms] by simp
  finally show ?thesis by (simp add: select_chat_messages_def)
qed

lemma rls_update_untouched:
  assumes "rls_update using ok pk w f rows = Inr rows'"
  shows "filter (\<lambda>r. \<not> using r) rows' = filter (\<lambda>r. \<not> using r) rows"
proof -
  let ?hit = "\<lambda>r. using r \<and> w r"
  have chk: "\<forall>r\<in>set rows. ?hit r \<longrightarrow> using (f r)"
    using assms by (auto simp: rls_update_def Let_def list_ex_iff split: if_splits)
  have rows': "rows' = map (\<lambda>r. if ?hit r then f r else r) rows"
    using assms by (auto simp: rls_update_def Let_def split: if_splits)
  have "filter (\<lambda>r. \<not> using r) (map (\<lambda>r. if ?hit r then f r else r) rows)
          = filter (\<lambda>r. \<not> using r) rows"
    using chk by (induction rows) auto
  then show ?thesis by (simp add: rows')
qed

lemma rls_update_applied:
  assumes "rls_update using ok pk w f rows = Inr rows'"
    and "r \<in> set rows" and "using r" and "w r"
  shows "f r \<in> set rows'"
proof -
  have "rows' = map (\<lambda>r. if using r \<and> w r then f r else r) rows"
    using assms(1) by (auto simp: rls_update_def Let_def split: if_splits)
  then show ?thesis using assms(2,3,4) by force
qed

subsection \<open>Message policies\<close>

text \<open>
  C1.  Let \<open>C\<close> be the conversation a new message \<open>M\<close> refers to (conversation ids
  are a primary key).  The insert policy admits \<open>M\<close> exactly when the acting
  identity is \<open>M\<close>'s sender and is the student or the counselor of \<open>C\<close>.  An
  insert that violates this is refused with a policy error and the database stays as
  it was; an insert that satisfies it is never refused by the policy.
\<close>

theorem chat_messages_insert_policy:
  assumes "C \<in> set (chat_conversations db)"
    and "distinct (map conv_id (chat_conversations db))"
    and "msg_conversation_id M = conv_id C"
  shows "(users_can_insert_messages_in_their_conversations uid (chat_conversations db) M \<longleftrightarrow>
            uid = Some (msg_sender_id M) \<and>
            (uid = Some (conv_student_id C) \<or> uid = Some (conv_counselor_id C)))
       \<and> (fst (insert_chat_messages uid db M) \<noteq> Some PolicyDenied \<longleftrightarrow>
            uid = Some (msg_sender_id M) \<and>
            (uid = Some (conv_student_id C) \<or> uid = Some (conv_counselor_id C)))
       \<and> (\<not> (uid = Some (msg_sender_id M) \<and>
              (uid = Some (conv_student_id C) \<or> uid = Some (conv_counselor_id C))) \<longrightarrow>
            insert_chat_messages uid db M = (Some PolicyDenied, db))"
  using message_policy_subquery [OF assms, of uid]
  by (simp add: users_can_insert_messages_in_their_conversations_def insert_chat_messages_def
        auth_uid_is_def)

theorem chat_messages_insert_policy_witness:
  "insert_chat_messages (Some ''x3'') demo_db
       (new_chat_message ''m2'' 2000 ''c1'' ''s1'' (js ''Hi'')) = (Some PolicyDenied, demo_db)
   \<and> insert_chat_messages (Some ''k1'') demo_db
       (new_chat_message ''m2'' 2000 ''c1'' ''s1'' (js ''Hi'')) = (Some PolicyDenied, demo_db)
   \<and> fst (insert_chat_messages (Some ''k1'') demo_db
       (new_chat_message ''m2'' 2000 ''c1'' ''k1'' (js ''Hi''))) \<noteq> Some PolicyDenied"
proof -
  have c: "demo_conversation \<in> set (chat_conversations demo_db)"
    and d: "distinct (map conv_id (chat_conversations demo_db))"
    by (simp_all add: demo_db_def)
  have i: "\<And>i t s x. msg_conversation_id (new_chat_message i t ''c1'' s x) = conv_id demo_conversation"
    by (simp add: new_chat_message_def demo_conversation_def)
  show ?thesis
    using chat_messages_insert_policy [OF c d i, of "Some ''x3''" "''m2''" 2000 "''s1''" "js ''Hi''"]
      chat_messages_insert_policy [OF c d i, of "Some ''k1''" "''m2''" 2000 "''s1''" "js ''Hi''"]
      chat_messages_insert_policy [OF c d i, of "Some ''k1''" "''m2''" 2000 "''k1''" "js ''Hi''"]
    by (simp add: demo_conversation_def new_chat_message_def)
qed

text \<open>
  C2, as stated, does not hold: a read by a third profile does not fail with a policy
  denial.  For the third profile \<open>x3\<close> the \<open>SELECT\<close> on the messages succeeds and
  returns no row, and the read of the message by its id fails because there is no
  single row to return, which is not a policy error.
\<close>

theorem chat_messages_read_counterexample:
  "select_chat_messages (Some ''x3'') demo_db = []
   \<and> select_chat_message_by_id (Some ''x3'') demo_db ''m1'' = Inl NotSingleRow
   \<and> select_chat_message_by_id (Some ''x3'') demo_db ''m1'' \<noteq> Inl PolicyDenied"
  by (simp add: select_chat_message_by_id_def select_chat_messages_def single_def
        users_can_view_messages_in_their_conversations_def auth_uid_is_def demo_db_def
        demo_conversation_def demo_message_def new_chat_message_def)

text \<open>
  C2, amended.  Let \<open>M\<close> be a stored message and \<open>C\<close> the conversation it refers to.
  The read policy, a subquery on the conversation row, admits \<open>M\<close> exactly when the
  acting identity is the student or the counselor of \<open>C\<close>: exactly then \<open>M\<close> is among
  the rows a \<open>SELECT\<close> returns, and exactly then the read of \<open>M\<close> by its id succeeds.
  For any third identity the row is withheld without a policy error: the \<open>SELECT\<close>
  returns without it, and the read by id fails for want of a single row.  No read by
  id ends in a policy denial.
\<close>

theorem chat_messages_select_policy:
  assumes "M \<in> set (chat_messages db)"
    and "distinct (map msg_id (chat_messages db))"
    and "C \<in> set (chat_conversations db)"
    and "distinct (map conv_id (chat_conversations db))"
    and "msg_conversation_id M = conv_id C"
  shows "(users_can_view_messages_in_their_conversations uid (chat_conversations db) M \<longleftrightarrow>
            uid = Some (conv_student_id C) \<or> uid = Some (conv_counselor_id C))
       \<and> (M \<in> set (select_chat_messages uid db) \<longleftrightarrow>
            uid = Some (conv_student_id C) \<or> uid = Some (conv_counselor_id C))
       \<and> (select_chat_message_by_id uid db (msg_id M) = Inr M \<longleftrightarrow>
            uid = Some (conv_student_id C) \<or> uid = Some (conv_counselor_id C))
       \<and> (\<not> (uid = Some (conv_student_id C) \<or> uid = Some (conv_counselor_id C)) \<longrightarrow>
            M \<notin> set (select_chat_messages uid db) \<and>
            select_chat_message_by_id uid db (msg_id M) = Inl NotSingleRow)
       \<and> select_chat_message_by_id uid' db' i \<noteq> Inl PolicyDenied"
proof -
  have p: "users_can_view_messages_in_their_conversations uid (chat_conversations db) M \<longleftrightarrow>
            uid = Some (conv_student_id C) \<or> uid = Some (conv_counselor_id C)"
    using message_policy_subquery [OF assms(3,4,5), of uid]
    by (simp add: users_can_view_messages_in_their_conversations_def)
  have s: "M \<in> set (select_chat_messages uid db) \<longleftrightarrow>
            uid = Some (conv_student_id C) \<or> uid = Some (conv_counselor_id C)"
    using assms(1) p by (simp add: select_chat_messages_def)
  have n: "select_chat_message_by_id uid' db' i \<noteq> Inl PolicyDenied"
    by (simp add: select_chat_message_by_id_def single_def split: list.splits)
  show ?thesis
    using p s n select_chat_messages_filter_id [OF assms(2,1), of uid]
    by (simp add: select_chat_message_by_id_def single_def)
qed

theorem chat_messages_select_policy_witness:
  "demo_message \<in> set (select_chat_messages (Some ''s1'') demo_db)
   \<and> demo_message \<in> set (select_chat_messages (Some ''k1'') demo_db)
   \<and> demo_message \<notin> set (select_chat_messages (Some ''x3'') demo_db)
   \<and> select_chat_message_by_id (Some ''k1'') demo_db (msg_id demo_message) = Inr demo_message
   \<and> select_chat_message_by_id (Some ''x3'') demo_db (msg_id demo_message) = Inl NotSingleRow"
proof -
  have m: "demo_message \<in> set (chat_messages demo_db)"
    and dm: "distinct (map msg_id (chat_messages demo_db))"
    and c: "demo_conversation \<in> set (chat_conversations demo_db)"
    and dc: "distinct (map conv_id (chat_conversations demo_db))"
    by (simp_all add: demo_db_def)
  have r: "msg_conversation_id demo_message = conv_id demo_conversation"
    by (simp add: demo_message_def new_chat_message_def demo_conversation_def)
  show ?thesis
    using chat_messages_select_policy [OF m dm c dc r, of "Some ''s1''"]
      chat_messages_select_policy [OF m dm c dc r, of "Some ''k1''"]
      chat_messages_select_policy [OF m dm c dc r, of "Some ''x3''"]
    by (simp add: demo_conversation_def)
qed

subsection \<open>Conversation and appointment policies\<close>

lemma update_chat_conversations_untouched:
  "filter (\<lambda>r. \<not> participants_can_update_conversations uid r)
     (chat_conversations (snd (update_chat_conversations uid now db w f)))
   = filter (\<lambda>r. \<not> participants_can_update_conversations uid r) (chat_conversations db)"
proof (cases "rls_update (participants_can_update_conversations uid) (chat_conversations_row_ok db)
                conv_id w (\<lambda>c. (f c)\<lparr>conv_updated_at := Some now\<rparr>) (chat_conversations db)")
  case (Inl e)
  then show ?thesis by (simp add: update_chat_conversations_def)
next
  case (Inr rows')
  from rls_update_untouched [OF Inr] Inr show ?thesis
    by (simp add: update_chat_conversations_def)
qed

lemma update_chat_conversations_applied:
  assumes "fst (update_chat_conversations uid now db w f) = None"
    and "c \<in> set (chat_conversations db)" and "participants_can_update_conversations uid c"
    and "w c"
  shows "(f c)\<lparr>conv_updated_at := Some now\<rparr>
           \<in> set (chat_conversations (snd (update_chat_conversations uid now db w f)))"
proof (cases "rls_update (participants_can_update_conversations uid) (chat_conversations_row_ok db)
                conv_id w (\<lambda>c. (f c)\<lparr>conv_updated_at := Some now\<rparr>) (chat_conversations db)")
  case (Inl e)
  then show ?thesis using assms(1) by (simp add: update_chat_conversations_def)
next
  case (Inr rows')
  from rls_update_applied [OF Inr assms(2,3,4)] Inr show ?thesis
    by (simp add: update_chat_conversations_def)
qed

lemma update_appointments_untouched:
  "filter (\<lambda>r. \<not> participants_can_update_appointments uid r)
     (appointments (snd (update_appointments uid now db w f)))
   = filter (\<lambda>r. \<not> participants_can_update_appointments uid r) (appointments db)"
proof (cases "rls_update (participants_can_update_appointments uid) (appointments_row_ok db)
                appt_id w (\<lambda>a. (f a)\<lparr>appt_updated_at := Some now\<rparr>) (appointments db)")
  case (Inl e)
  then show ?thesis by (simp add: update_appointments_def)
next
  case (Inr rows')
  from rls_update_untouched [OF Inr] Inr show ?thesis
    by (simp add: update_appointments_def)
qed

lemma update_appointments_applied:
  assumes "fst (update_appointments uid now db w f) = None"
    and "a \<in> set (appointments db)" and "participants_can_update_appointments uid a"
    and "w a"
  shows "(f a)\<lparr>appt_updated_at := Some now\<rparr>
           \<in> set (appointments (snd (update_appointments uid now db w f)))"
proof (cases "rls_update (participants_can_update_appointments uid) (appointments_row_ok db)
                appt_id w (\<lambda>a. (f a)\<lparr>appt_updated_at := Some now\<rparr>) (appointments db)")
  case (Inl e)
  then show ?thesis using assms(1) by (simp add: update_appointments_def)
next
  case (Inr rows')
  from rls_update_applied [OF Inr assms(2,3,4)] Inr show ?thesis
    by (simp add: update_appointments_def)
qed

lemma rls_update_no_hit:
  assumes "\<forall>r\<in>set rows. w r \<longrightarrow> \<not> using r" and "distinct (map pk rows)"
  shows "rls_update using ok pk w f rows = Inr rows"
proof -
  have none: "\<And>r. r \<in> set rows \<Longrightarrow> \<not> (using r \<and> w r)" using assms(1) by blast
  have same: "map (\<lambda>r. if using r \<and> w r then f r else r) rows = rows"
    by (rule map_idI) (simp add: none)
  have a: "\<not> list_ex (\<lambda>r. (using r \<and> w r) \<and> \<not> using (f r)) rows"
    and b: "\<not> list_ex (\<lambda>r. (using r \<and> w r) \<and> \<not> ok (f r)) rows"
    using none by (auto simp: list_ex_iff)
  show ?thesis
    unfolding rls_update_def Let_def same using a b assms(2) by simp
qed

lemma update_chat_conversations_no_hit:
  assumes "distinct (map conv_id (chat_conversations db))"
    and "\<forall>r\<in>set (chat_conversations db). w r \<longrightarrow> \<not> participants_can_update_conversations uid r"
  shows "update_chat_conversations uid now db w f = (None, db)"
  by (simp add: update_chat_conversations_def rls_update_no_hit [OF assms(2,1)])

lemma update_appointments_no_hit:
  assumes "distinct (map appt_id (appointments db))"
    and "\<forall>r\<in>set (appointments db). w r \<longrightarrow> \<not> participants_can_update_appointments uid r"
  shows "update_appointments uid now db w f = (None, db)"
  by (simp add: update_appointments_def rls_update_no_hit [OF assms(2,1)])

text \<open>
  C3, as stated, does not hold: not every other attempt is rejected.  The third
  profile \<open>x3\<close>, and a request without a session, update the appointment of \<open>s1\<close> and
  \<open>k1\<close>: the statement succeeds and changes nothing.  The read by \<open>x3\<close> succeeds and
  returns no row.  Only the insert is refused.
\<close>

theorem unrejected_attempts_counterexample:
  "update_appointments (Some ''x3'') 9 demo_db appointment_a1 cancel = (None, demo_db)
   \<and> update_appointments None 9 demo_db appointment_a1 cancel = (None, demo_db)
   \<and> select_appointments (Some ''x3'') demo_db = []
   \<and> select_chat_conversations (Some ''x3'') demo_db = []
   \<and> insert_appointments (Some ''x3'') demo_db demo_appointment = (Some PolicyDenied, demo_db)"
  by (simp add: update_appointments_def rls_update_def select_appointments_def
        select_chat_conversations_def insert_appointments_def
        participants_can_update_appointments_def users_can_view_own_appointments_def
        users_can_view_own_conversations_def students_can_create_appointments_def
        auth_uid_is_def demo_db_def demo_appointment_def demo_conversation_def
        appointment_a1_def cancel_def)

text \<open>
  C3, amended.  For a conversation row \<open>c\<close> and an appointment row \<open>a\<close>: the read
  policy and the update policy hold exactly when the acting identity is the row's
  student or counselor, and the insert policy exactly when it is the row's student.
  An \<open>INSERT\<close> by anyone but the row's student is rejected by the storage layer with
  a policy error and writes nothing.  A read or an update by anyone else is not
  rejected but has no effect on the row: a \<open>SELECT\<close> returns a row exactly when the
  reader is a participant; an \<open>UPDATE\<close>, whatever it asks for, leaves the rows of
  which the acting identity is no participant as they were, succeeds with the
  database unchanged when it addresses only such rows, and changes a participant's
  row when it succeeds.
\<close>

theorem conversation_and_appointment_policies:
  "(users_can_view_own_conversations uid c \<longleftrightarrow>
      uid = Some (conv_student_id c) \<or> uid = Some (conv_counselor_id c))
   \<and> (c \<in> set (select_chat_conversations uid db) \<longleftrightarrow>
        c \<in> set (chat_conversations db) \<and>
        (uid = Some (conv_student_id c) \<or> uid = Some (conv_counselor_id c)))
   \<and> (participants_can_update_conversations uid c \<longleftrightarrow>
        uid = Some (conv_student_id c) \<or> uid = Some (conv_counselor_id c))
   \<and> filter (\<lambda>r. \<not> (uid = Some (conv_student_id r) \<or> uid = Some (conv_counselor_id r)))
         (chat_conversations (snd (update_chat_conversations uid now db wc fc)))
       = filter (\<lambda>r. \<not> (uid = Some (conv_student_id r) \<or> uid = Some (conv_counselor_id r)))
           (chat_conversations db)
   \<and> (fst (update_chat_conversations uid now db wc fc) = None \<and>
        c \<in> set (chat_conversations db) \<and> wc c \<and>
        (uid = Some (conv_student_id c) \<or> uid = Some (conv_counselor_id c)) \<longrightarrow>
          (fc c)\<lparr>conv_updated_at := Some now\<rparr>
            \<in> set (chat_conversations (snd (update_chat_conversations uid now db wc fc))))
   \<and> (students_can_create_conversations uid c \<longleftrightarrow> uid = Some (conv_student_id c))
   \<and> (fst (insert_chat_conversations uid db c) \<noteq> Some PolicyDenied \<longleftrightarrow>
        uid = Some (conv_student_id c))
   \<and> (uid \<noteq> Some (conv_student_id c) \<longrightarrow>
        insert_chat_conversations uid db c = (Some PolicyDenied, db))
   \<and> (users_can_view_own_appointments uid a \<longleftrightarrow>
        uid = Some (appt_student_id a) \<or> uid = Some (appt_counselor_id a))
   \<and> (a \<in> set (select_appointments uid db) \<longleftrightarrow>
        a \<in> set (appointments db) \<and>
        (uid = Some (appt_student_id a) \<or> uid = Some (appt_counselor_id a)))
   \<and> (participants_can_update_appointments uid a \<longleftrightarrow>
        uid = Some (appt_student_id a) \<or> uid = Some (appt_counselor_id a))
   \<and> filter (\<lambda>r. \<not> (uid = Some (appt_student_id r) \<or> uid = Some (appt_counselor_id r)))
         (appointments (snd (update_appointments uid now db wa fa)))
       = filter (\<lambda>r. \<not> (uid = Some (appt_student_id r) \<or> uid = Some (appt_counselor_id r)))
           (appointments db)
   \<and> (fst (update_appointments uid now db wa fa) = None \<and>
        a \<in> set (appointments db) \<and> wa a \<and>
        (uid = Some (appt_student_id a) \<or> uid = Some (appt_counselor_id a)) \<longrightarrow>
          (fa a)\<lparr>appt_updated_at := Some now\<rparr>
            \<in> set (appointments (snd (update_appointments uid now db wa fa))))
   \<and> (students_can_create_appointments uid a \<longleftrightarrow> uid = Some (appt_student_id a))
   \<and> (fst (insert_appointments uid db a) \<noteq> Some PolicyDenied \<longleftrightarrow>
        uid = Some (appt_student_id a))
   \<and> (uid \<noteq> Some (appt_student_id a) \<longrightarrow>
        insert_appointments uid db a = (Some PolicyDenied, db))
   \<and> (distinct (map conv_id (chat_conversations db)) \<and>
       (\<forall>r\<in>set (chat_conversations db). wc r \<longrightarrow>
           \<not> (uid = Some (conv_student_id r) \<or> uid = Some (conv_counselor_id r))) \<longrightarrow>
        update_chat_conversations uid now db wc fc = (None, db))
   \<and> (distinct (map appt_id (appointments db)) \<and>
       (\<forall>r\<in>set (appointments db). wa r \<longrightarrow>
           \<not> (uid = Some (appt_student_id r) \<or> uid = Some (appt_counselor_id r))) \<longrightarrow>
        update_appointments uid now db wa fa = (None, db))"
proof -
  have Uc: "participants_can_update_conversations uid
              = (\<lambda>r. uid = Some (conv_student_id r) \<or> uid = Some (conv_counselor_id r))"
    by (simp add: participants_can_update_conversations_def auth_uid_is_def fun_eq_iff)
  have Ua: "participants_can_update_appointments uid
              = (\<lambda>r. uid = Some (appt_student_id r) \<or> uid = Some (appt_counselor_id r))"
    by (simp add: participants_can_update_appointments_def auth_uid_is_def fun_eq_iff)
  note conv_rest = update_chat_conversations_untouched [of uid now db wc fc, unfolded Uc]
  note appt_rest = update_appointments_untouched [of uid now db wa fa, unfolded Ua]
  have conv_upd: "fst (update_chat_conversations uid now db wc fc) = None \<and>
        c \<in> set (chat_conversations db) \<and> wc c \<and>
        (uid = Some (conv_student_id c) \<or> uid = Some (conv_counselor_id c)) \<longrightarrow>
          (fc c)\<lparr>conv_updated_at := Some now\<rparr>
            \<in> set (chat_conversations (snd (update_chat_conversations uid now db wc fc)))"
    using update_chat_conversations_applied [of uid now db wc fc c] by (simp add: Uc)
  have appt_upd: "fst (update_appointments uid now db wa fa) = None \<and>
        a \<in> set (appointments db) \<and> wa a \<and>
        (uid = Some (appt_student_id a) \<or> uid = Some (appt_counselor_id a)) \<longrightarrow>
          (fa a)\<lparr>appt_updated_at := Some now\<rparr>
            \<in> set (appointments (snd (update_appointments uid now db wa fa)))"
    using update_appointments_applied [of uid now db wa fa a] by (simp add: Ua)
  have pol: "(users_can_view_own_conversations uid c \<longleftrightarrow>
                uid = Some (conv_student_id c) \<or> uid = Some (conv_counselor_id c))"
      "(students_can_create_conversations uid c \<longleftrightarrow> uid = Some (conv_student_id c))"
      "(users_can_view_own_appointments uid a \<longleftrightarrow>
          uid = Some (appt_student_id a) \<or> uid = Some (appt_counselor_id a))"
      "(students_can_create_appointments uid a \<longleftrightarrow> uid = Some (appt_student_id a))"
    by (simp_all add: users_can_view_own_conversations_def students_can_create_conversations_def
          users_can_view_own_appointments_def students_can_create_appointments_def
          auth_uid_is_def)
  have sel: "(c \<in> set (select_chat_conversations uid db) \<longleftrightarrow>
        c \<in> set (chat_conversations db) \<and>
        (uid = Some (conv_student_id c) \<or> uid = Some (conv_counselor_id c)))"
     "(a \<in> set (select_appointments uid db) \<longleftrightarrow>
        a \<in> set (appointments db) \<and>
        (uid = Some (appt_student_id a) \<or> uid = Some (appt_counselor_id a)))"
    by (simp_all add: select_chat_conversations_def select_appointments_def pol)
  have ins: "(fst (insert_chat_conversations uid db c) \<noteq> Some PolicyDenied \<longleftrightarrow>
        uid = Some (conv_student_id c))"
     "(uid \<noteq> Some (conv_student_id c) \<longrightarrow>
        insert_chat_conversations uid db c = (Some PolicyDenied, db))"
     "(fst (insert_appointments uid db a) \<noteq> Some PolicyDenied \<longleftrightarrow>
        uid = Some (appt_student_id a))"
     "(uid \<noteq> Some (appt_student_id a) \<longrightarrow>
        insert_appointments uid db a = (Some PolicyDenied, db))"
    by (simp_all add: insert_chat_conversations_def insert_appointments_def pol)
  have upd: "(participants_can_update_conversations uid c \<longleftrightarrow>
        uid = Some (conv_student_id c) \<or> uid = Some (conv_counselor_id c))"
     "(participants_can_update_appointments uid a \<longleftrightarrow>
        uid = Some (appt_student_id a) \<or> uid = Some (appt_counselor_id a))"
    by (simp_all add: Uc Ua)
  have conv_none: "distinct (map conv_id (chat_conversations db)) \<and>
       (\<forall>r\<in>set (chat_conversations db). wc r \<longrightarrow>
           \<not> (uid = Some (conv_student_id r) \<or> uid = Some (conv_counselor_id r))) \<longrightarrow>
        update_chat_conversations uid now db wc fc = (None, db)"
    using update_chat_conversations_no_hit [of db wc uid now fc] by (simp add: Uc)
  have appt_none: "distinct (map appt_id (appointments db)) \<and>
       (\<forall>r\<in>set (appointments db). wa r \<longrightarrow>
           \<not> (uid = Some (appt_student_id r) \<or> uid = Some (appt_counselor_id r))) \<longrightarrow>
        update_appointments uid now db wa fa = (None, db)"
    using update_appointments_no_hit [of db wa uid now fa] by (simp add: Ua)
  have first: "(users_can_view_own_conversations uid c \<longleftrightarrow>
      uid = Some (conv_student_id c) \<or> uid = Some (conv_counselor_id c))"
    by (rule pol(1))
  show ?thesis
    by (intro conjI first sel ins upd conv_rest appt_rest conv_upd appt_upd pol(2-4)
          conv_none appt_none)
qed


theorem conversation_and_appointment_policies_witness:
  "demo_conversation \<in> set (select_chat_conversations (Some ''k1'') demo_db)
   \<and> demo_conversation \<notin> set (select_chat_conversations (Some ''x3'') demo_db)
   \<and> insert_chat_conversations (Some ''k1'') demo_db demo_conversation = (Some PolicyDenied, demo_db)
   \<and> insert_appointments (Some ''x3'') demo_db demo_appointment = (Some PolicyDenied, demo_db)
   \<and> fst (insert_appointments (Some ''s1'') demo_db demo_appointment) \<noteq> Some PolicyDenied
   \<and> demo_conversation\<lparr>conv_status := Some ''ended'', conv_updated_at := Some 9\<rparr>
        \<in> set (chat_conversations (snd (update_chat_conversations (Some ''k1'') 9 demo_db
                 (\<lambda>c. conv_id c = ''c1'') (\<lambda>c. c\<lparr>conv_status := Some ''ended''\<rparr>))))
   \<and> demo_appointment\<lparr>appt_status := Some ''cancelled'', appt_updated_at := Some 9\<rparr>
        \<in> set (appointments (snd (update_appointments (Some ''s1'') 9 demo_db
                 (\<lambda>a. appt_id a = ''a1'') (\<lambda>a. a\<lparr>appt_status := Some ''cancelled''\<rparr>))))
   \<and> filter (\<lambda>r. \<not> (Some ''x3'' = Some (appt_student_id r) \<or> Some ''x3'' = Some (appt_counselor_id r)))
        (appointments (snd (update_appointments (Some ''x3'') 9 demo_db
                 (\<lambda>a. appt_id a = ''a1'') (\<lambda>a. a\<lparr>appt_status := Some ''cancelled''\<rparr>))))
       = [demo_appointment]
   \<and> update_appointments (Some ''x3'') 9 demo_db
        (\<lambda>a. appt_id a = ''a1'') (\<lambda>a. a\<lparr>appt_status := Some ''cancelled''\<rparr>)
       = (None, demo_db)"
proof -
  let ?wc = "\<lambda>c. conv_id c = ''c1''" and ?fc = "\<lambda>c. c\<lparr>conv_status := Some ''ended''\<rparr>"
  let ?wa = "\<lambda>a. appt_id a = ''a1''" and ?fa = "\<lambda>a. a\<lparr>appt_status := Some ''cancelled''\<rparr>"
  have uc: "fst (update_chat_conversations (Some ''k1'') 9 demo_db ?wc ?fc) = None"
    by (simp add: update_chat_conversations_def rls_update_def demo_db_def demo_conversation_def
          participants_can_update_conversations_def auth_uid_is_def chat_conversations_row_ok_def
          check_in_def demo_profile_def)
  have ua: "fst (update_appointments (Some ''s1'') 9 demo_db ?wa ?fa) = None"
    by (simp add: update_appointments_def rls_update_def demo_db_def demo_appointment_def
          participants_can_update_appointments_def auth_uid_is_def appointments_row_ok_def
          check_in_def demo_profile_def)
  have mem: "demo_conversation \<in> set (chat_conversations demo_db)"
    "demo_appointment \<in> set (appointments demo_db)"
    by (simp_all add: demo_db_def)
  have sel: "?wc demo_conversation" "?wa demo_appointment"
    "conv_student_id demo_conversation = ''s1''" "conv_counselor_id demo_conversation = ''k1''"
    "appt_student_id demo_appointment = ''s1''" "appt_counselor_id demo_appointment = ''k1''"
    by (simp_all add: demo_conversation_def demo_appointment_def)
  have rest: "filter (\<lambda>r. \<not> (Some ''x3'' = Some (appt_student_id r) \<or> Some ''x3'' = Some (appt_counselor_id r)))
                (appointments demo_db) = [demo_appointment]"
    by (simp add: demo_db_def demo_appointment_def)
  have ids: "distinct (map appt_id (appointments demo_db))"
    "\<forall>r\<in>set (appointments demo_db). appt_id r = ''a1'' \<longrightarrow>
        \<not> (Some ''x3'' = Some (appt_student_id r) \<or> Some ''x3'' = Some (appt_counselor_id r))"
    by (simp_all add: demo_db_def demo_appointment_def)
  show ?thesis
    using conversation_and_appointment_policies [where uid = "Some ''k1''" and c = demo_conversation
        and db = demo_db and now = 9 and wc = ?wc and fc = ?fc and a = demo_appointment
        and wa = ?wa and fa = ?fa]
      conversation_and_appointment_policies [where uid = "Some ''s1''" and c = demo_conversation
        and db = demo_db and now = 9 and wc = ?wc and fc = ?fc and a = demo_appointment
        and wa = ?wa and fa = ?fa]
      conversation_and_appointment_policies [where uid = "Some ''x3''" and c = demo_conversation
        and db = demo_db and now = 9 and wc = ?wc and fc = ?fc and a = demo_appointment
        and wa = ?wa and fa = ?fa]
      uc ua mem sel rest ids
    by simp
qed

subsection \<open>Appointment times\<close>

lemma insert_appointments_ignores_times:
  "fst (insert_appointments uid db (a\<lparr>appt_scheduled_start := s, appt_scheduled_end := t\<rparr>))
     = fst (insert_appointments uid db a)"
  by (simp add: insert_appointments_def students_can_create_appointments_def
        appointments_row_ok_def)

lemma rls_update_cong:
  assumes "\<And>r. using (g r) = using (f r)" and "\<And>r. ok (g r) = ok (f r)"
    and "\<And>r. pk (g r) = pk (f r)"
  shows "isl (rls_update using ok pk w g rows) = isl (rls_update using ok pk w f rows)
       \<and> (isl (rls_update using ok pk w f rows) \<longrightarrow>
            rls_update using ok pk w g rows = rls_update using ok pk w f rows)"
proof -
  have h: "pk \<circ> (\<lambda>r. if using r \<and> w r then g r else r)
             = pk \<circ> (\<lambda>r. if using r \<and> w r then f r else r)"
    by (auto simp: fun_eq_iff assms(3))
  show ?thesis
    by (simp add: rls_update_def Let_def assms(1,2) h)
qed

lemma update_appointments_ignores_times:
  "fst (update_appointments uid now db w
          (\<lambda>r. (f r)\<lparr>appt_scheduled_start := s, appt_scheduled_end := t\<rparr>))
     = fst (update_appointments uid now db w f)"
proof -
  let ?g = "\<lambda>a. (f a)\<lparr>appt_scheduled_start := s, appt_scheduled_end := t,
                      appt_updated_at := Some now\<rparr>"
  let ?f = "\<lambda>a. (f a)\<lparr>appt_updated_at := Some now\<rparr>"
  let ?U = "participants_can_update_appointments uid"
  have c: "isl (rls_update ?U (appointments_row_ok db) appt_id w ?g (appointments db))
             = isl (rls_update ?U (appointments_row_ok db) appt_id w ?f (appointments db))
       \<and> (isl (rls_update ?U (appointments_row_ok db) appt_id w ?f (appointments db)) \<longrightarrow>
            rls_update ?U (appointments_row_ok db) appt_id w ?g (appointments db)
              = rls_update ?U (appointments_row_ok db) appt_id w ?f (appointments db))"
    by (rule rls_update_cong)
       (simp_all add: participants_can_update_appointments_def appointments_row_ok_def)
  show ?thesis
    using c unfolding update_appointments_def
    by (cases "rls_update ?U (appointments_row_ok db) appt_id w ?g (appointments db)";
        cases "rls_update ?U (appointments_row_ok db) appt_id w ?f (appointments db)") auto
qed

lemma createAppointment_blank:
  assumes "dash_profile ui = None \<or> form_counselor_id (appointmentForm ui) = [] \<or>
           form_scheduled_start (appointmentForm ui) = [] \<or>
           form_scheduled_end (appointmentForm ui) = []"
  shows "snd (createAppointment e (ui, srv)) = srv"
  using assms by (auto simp: createAppointment_def Let_def split: option.splits)

lemma createAppointment_issues_insert:
  assumes "dash_profile ui = Some p" and "form_counselor_id (appointmentForm ui) \<noteq> []"
    and "form_scheduled_start (appointmentForm ui) \<noteq> []"
    and "form_scheduled_end (appointmentForm ui) \<noteq> []"
  shows "\<exists>rest. srv_log (snd (createAppointment e (ui, srv))) =
           srv_log srv @
           Insert_appointments (prof_id p) (form_counselor_id (appointmentForm ui))
             (appointment_type_text (form_appointment_type (appointmentForm ui)))
             (form_scheduled_start (appointmentForm ui))
             (form_scheduled_end (appointmentForm ui)) # rest"
  using assms
  by (auto simp: createAppointment_def Let_def issue_def fetchAppointments_def
           split: option.splits sum.splits prod.splits)

text \<open>
  C5, as stated, does not hold: the student \<open>s1\<close> creates an appointment whose
  \<open>scheduled_start\<close> is after its \<open>scheduled_end\<close>, both directly at the table and
  through \<open>createAppointment\<close> with a form whose end is an hour before its start;
  the row is stored.
\<close>

theorem appointment_order_counterexample:
  "insert_appointments (Some ''s1'') demo_db backwards_appointment
     = (None, demo_db\<lparr>appointments := [demo_appointment, backwards_appointment]\<rparr>)
   \<and> appt_scheduled_start backwards_appointment \<ge> appt_scheduled_end backwards_appointment
   \<and> map appt_scheduled_start
        (appointments (srv_db (snd (createAppointment demo_create_env
                                      (demo_dashboard, demo_server ''s1'')))))
       = [3600000, 1735725600000]
   \<and> map appt_scheduled_end
        (appointments (srv_db (snd (createAppointment demo_create_env
                                      (demo_dashboard, demo_server ''s1'')))))
       = [5400000, 1735722000000]"
  by (simp add: insert_appointments_def students_can_create_appointments_def auth_uid_is_def
        appointments_row_ok_def check_in_def demo_db_def backwards_appointment_def
        demo_appointment_def demo_profile_def createAppointment_def demo_create_env_def
        demo_dashboard_def demo_server_def demo_parse_timestamptz_def new_appointment_def
        appointment_type_text_def issue_def fetchAppointments_def Let_def
        fetchAppointments_filter_def query_appointments_def)

text \<open>
  C5, amended.  Whether the storage layer accepts a create or an update of an
  appointment does not depend on the values of \<open>scheduled_start\<close> and
  \<open>scheduled_end\<close>: both must be present and nothing relates them.
  \<open>createAppointment\<close> sends nothing when the profile, the counselor, the start or
  the end is missing, and otherwise sends the insert with the two values as typed.
\<close>

theorem appointment_times_unchecked:
  "fst (insert_appointments uid db (a\<lparr>appt_scheduled_start := s, appt_scheduled_end := t\<rparr>))
     = fst (insert_appointments uid db a)
   \<and> fst (update_appointments uid now db w
            (\<lambda>r. (f r)\<lparr>appt_scheduled_start := s, appt_scheduled_end := t\<rparr>))
       = fst (update_appointments uid now db w f)
   \<and> (dash_profile ui = None \<or> form_counselor_id (appointmentForm ui) = [] \<or>
        form_scheduled_start (appointmentForm ui) = [] \<or>
        form_scheduled_end (appointmentForm ui) = [] \<longrightarrow>
          snd (createAppointment e (ui, srv)) = srv)
   \<and> (dash_profile ui = Some p \<and> form_counselor_id (appointmentForm ui) \<noteq> [] \<and>
        form_scheduled_start (appointmentForm ui) \<noteq> [] \<and>
        form_scheduled_end (appointmentForm ui) \<noteq> [] \<longrightarrow>
          (\<exists>rest. srv_log (snd (createAppointment e (ui, srv))) =
             srv_log srv @
             Insert_appointments (prof_id p) (form_counselor_id (appointmentForm ui))
               (appointment_type_text (form_appointment_type (appointmentForm ui)))
               (form_scheduled_start (appointmentForm ui))
               (form_scheduled_end (appointmentForm ui)) # rest))"
  using insert_appointments_ignores_times [where uid = uid and db = db and a = a and s = s and t = t]
    update_appointments_ignores_times [where uid = uid and now = now and db = db and w = w
      and f = f and s = s and t = t]
    createAppointment_blank [where ui = ui and e = e and srv = srv]
    createAppointment_issues_insert [where ui = ui and p = p and e = e and srv = srv]
  by blast

theorem appointment_times_unchecked_witness:
  "fst (insert_appointments (Some ''s1'') demo_db
          (backwards_appointment\<lparr>appt_scheduled_start := 3600000, appt_scheduled_end := 5400000\<rparr>))
     = fst (insert_appointments (Some ''s1'') demo_db backwards_appointment)
   \<and> snd (createAppointment demo_create_env
            (demo_dashboard\<lparr>appointmentForm := empty_form\<rparr>, demo_server ''s1''))
       = demo_server ''s1''
   \<and> (\<exists>rest. srv_log (snd (createAppointment demo_create_env (demo_dashboard, demo_server ''s1'')))
         = Insert_appointments ''s1'' ''k1'' ''video'' ''2025-01-01T10:00'' ''2025-01-01T09:00'' # rest)"
proof -
  have blank: "form_scheduled_start (appointmentForm (demo_dashboard\<lparr>appointmentForm := empty_form\<rparr>)) = []"
    by (simp add: empty_form_def)
  have filled: "dash_profile demo_dashboard = Some (demo_profile ''s1'' Student)"
    "form_counselor_id (appointmentForm demo_dashboard) = ''k1''"
    "form_scheduled_start (appointmentForm demo_dashboard) = ''2025-01-01T10:00''"
    "form_scheduled_end (appointmentForm demo_dashboard) = ''2025-01-01T09:00''"
    "appointment_type_text (form_appointment_type (appointmentForm demo_dashboard)) = ''video''"
    "prof_id (demo_profile ''s1'' Student) = ''s1''"
    "srv_log (demo_server ''s1'') = []"
    by (simp_all add: demo_dashboard_def demo_profile_def appointment_type_text_def demo_server_def)
  show ?thesis
    using appointment_times_unchecked [where uid = "Some ''s1''" and db = demo_db
        and a = backwards_appointment and s = 3600000 and t = 5400000
        and ui = "demo_dashboard\<lparr>appointmentForm := empty_form\<rparr>" and e = demo_create_env
        and srv = "demo_server ''s1''"]
      appointment_times_unchecked [where ui = demo_dashboard and e = demo_create_env
        and srv = "demo_server ''s1''" and p = "demo_profile ''s1'' Student"]
      blank filled
    by simp
qed

subsection \<open>Role scoping of the list queries\<close>

text \<open>
  C9.  For a loaded profile whose role is not \<open>student\<close>, the admin role included,
  \<open>fetchAppointments\<close> and \<open>fetchConversations\<close> filter by \<open>counselor_id = profile.id\<close>;
  they filter by \<open>student_id\<close> exactly when the role is \<open>student\<close>.  There are only
  these two branches.  The request sent and the rows shown are those of the
  counselor filter.
\<close>

theorem role_scoping:
  "(prof_role p \<noteq> Some Student \<longrightarrow>
      fetchAppointments_filter (Some p) = (Counselor_id, Some (prof_id p)) \<and>
      fetchConversations_filter (Some p) = (Counselor_id, Some (prof_id p)))
   \<and> (prof_role p = Some Admin \<longrightarrow>
        fetchAppointments_filter (Some p) = (Counselor_id, Some (prof_id p)) \<and>
        fetchConversations_filter (Some p) = (Counselor_id, Some (prof_id p)))
   \<and> (fst (fetchAppointments_filter (Some p)) = Student_id \<longleftrightarrow> prof_role p = Some Student)
   \<and> (fst (fetchConversations_filter (Some p)) = Student_id \<longleftrightarrow> prof_role p = Some Student)
   \<and> (prof_role p = Some Student \<longrightarrow>
        fetchAppointments_filter (Some p) = (Student_id, Some (prof_id p)) \<and>
        fetchConversations_filter (Some p) = (Student_id, Some (prof_id p)))
   \<and> (dash_profile dui = Some p \<and> prof_role p \<noteq> Some Student \<longrightarrow>
        srv_log (snd (fetchAppointments False (dui, srv)))
          = srv_log srv @ [Select_appointments Counselor_id (Some (prof_id p))] \<and>
        map fst (dash_appointments (fst (fetchAppointments False (dui, srv))))
          = sort_key appt_scheduled_start
              (filter (\<lambda>a. appt_counselor_id a = prof_id p)
                 (select_appointments (srv_auth_uid srv) (srv_db srv))))
   \<and> (chat_profile cui = Some p \<and> prof_role p \<noteq> Some Student \<longrightarrow>
        srv_log (snd (fetchConversations False (cui, srv)))
          = srv_log srv @ [Select_chat_conversations Counselor_id (Some (prof_id p))] \<and>
        map fst (conversations (fst (fetchConversations False (cui, srv))))
          = sort_key (\<lambda>c. desc_key (conv_last_message_at c))
              (filter (\<lambda>c. conv_counselor_id c = prof_id p)
                 (select_chat_conversations (srv_auth_uid srv) (srv_db srv))))"
proof -
  have flt: "fetchAppointments_filter (Some p) =
               (if prof_role p = Some Student then (Student_id, Some (prof_id p))
                else (Counselor_id, Some (prof_id p)))"
    "fetchConversations_filter (Some p) =
               (if prof_role p = Some Student then (Student_id, Some (prof_id p))
                else (Counselor_id, Some (prof_id p)))"
    by (simp_all add: fetchAppointments_filter_def fetchConversations_filter_def)
  have appt: "dash_profile dui = Some p \<and> prof_role p \<noteq> Some Student \<longrightarrow>
        srv_log (snd (fetchAppointments False (dui, srv)))
          = srv_log srv @ [Select_appointments Counselor_id (Some (prof_id p))] \<and>
        map fst (dash_appointments (fst (fetchAppointments False (dui, srv))))
          = sort_key appt_scheduled_start
              (filter (\<lambda>a. appt_counselor_id a = prof_id p)
                 (select_appointments (srv_auth_uid srv) (srv_db srv)))"
    by (simp add: fetchAppointments_def flt Let_def issue_def query_appointments_def
          appt_column_def with_parties_appt_def o_def)
  have conv: "chat_profile cui = Some p \<and> prof_role p \<noteq> Some Student \<longrightarrow>
        srv_log (snd (fetchConversations False (cui, srv)))
          = srv_log srv @ [Select_chat_conversations Counselor_id (Some (prof_id p))] \<and>
        map fst (conversations (fst (fetchConversations False (cui, srv))))
          = sort_key (\<lambda>c. desc_key (conv_last_message_at c))
              (filter (\<lambda>c. conv_counselor_id c = prof_id p)
                 (select_chat_conversations (srv_auth_uid srv) (srv_db srv)))"
    by (simp add: fetchConversations_def flt Let_def issue_def query_chat_conversations_def
          conv_column_def with_parties_conv_def o_def)
  show ?thesis using appt conv by (simp add: flt)
qed

theorem role_scoping_witness:
  "fetchAppointments_filter (Some (demo_profile ''x3'' Admin)) = (Counselor_id, Some ''x3'')
   \<and> fetchConversations_filter (Some (demo_profile ''x3'' Admin)) = (Counselor_id, Some ''x3'')
   \<and> fetchAppointments_filter (Some (demo_profile ''s1'' Student)) = (Student_id, Some ''s1'')
   \<and> fetchConversations_filter (Some (demo_profile ''k1'' Counselor)) = (Counselor_id, Some ''k1'')
   \<and> srv_log (snd (fetchAppointments False
         (demo_dashboard\<lparr>dash_profile := Some (demo_profile ''x3'' Admin)\<rparr>, demo_server ''x3'')))
       = [Select_appointments Counselor_id (Some ''x3'')]"
proof -
  have r: "prof_role (demo_profile ''x3'' Admin) = Some Admin"
    "prof_role (demo_profile ''s1'' Student) = Some Student"
    "prof_role (demo_profile ''k1'' Counselor) = Some Counselor"
    "\<And>i r. prof_id (demo_profile i r) = i"
    "dash_profile (demo_dashboard\<lparr>dash_profile := Some (demo_profile ''x3'' Admin)\<rparr>)
       = Some (demo_profile ''x3'' Admin)"
    "srv_log (demo_server ''x3'') = []"
    by (simp_all add: demo_profile_def demo_server_def)
  show ?thesis
    using role_scoping [where p = "demo_profile ''x3'' Admin"
        and dui = "demo_dashboard\<lparr>dash_profile := Some (demo_profile ''x3'' Admin)\<rparr>"
        and srv = "demo_server ''x3''"]
      role_scoping [where p = "demo_profile ''s1'' Student"]
      role_scoping [where p = "demo_profile ''k1'' Counselor"]
      r
    by simp
qed

subsection \<open>Sending a message\<close>

text \<open>
  C10.  When the trimmed text is empty, or no conversation is selected (the selection
  is \<open>null\<close> or the empty string), or no profile is loaded, \<open>sendMessage\<close>
  returns with the component state, the database and the list of requests issued
  to the backend all unchanged.
\<close>

theorem sendMessage_noop:
  assumes "trim (newMessage ui) = [] \<or> selectedConversation ui = None \<or>
           selectedConversation ui = Some [] \<or> chat_profile ui = None"
  shows "sendMessage e (ui, srv) = (ui, srv)"
  using assms by (auto simp: sendMessage_def falsy_def)

theorem sendMessage_noop_witness:
  "trim (newMessage (demo_chat (js ''   ''))) = [] \<and>
   sendMessage demo_send_env (demo_chat (js ''   ''), demo_server ''s1'')
     = (demo_chat (js ''   ''), demo_server ''s1'')"
proof -
  have h: "trim (newMessage (demo_chat (js ''   ''))) = []"
    by (simp add: demo_chat_def trim_def js_def isWhiteSpace_def)
  then have "trim (newMessage (demo_chat (js ''   ''))) = [] \<or>
             selectedConversation (demo_chat (js ''   '')) = None \<or>
             selectedConversation (demo_chat (js ''   '')) = Some [] \<or>
             chat_profile (demo_chat (js ''   '')) = None"
    by simp
  from sendMessage_noop [OF this] h show ?thesis by simp
qed

lemma chat_messages_after_update:
  "chat_messages (snd (update_chat_conversations uid now db w f)) = chat_messages db"
  by (cases "rls_update (participants_can_update_conversations uid) (chat_conversations_row_ok db)
               conv_id w (\<lambda>c. (f c)\<lparr>conv_updated_at := Some now\<rparr>) (chat_conversations db)")
     (simp_all add: update_chat_conversations_def)

lemma update_last_message_at_consistent:
  assumes "distinct (map conv_id (chat_conversations db))"
    and "list_all (chat_conversations_row_ok db) (chat_conversations db)"
  shows "update_chat_conversations uid now db (\<lambda>c. conv_id c = cid)
           (\<lambda>c. c\<lparr>conv_last_message_at := Some stamp\<rparr>)
         = (None, db\<lparr>chat_conversations :=
              map (\<lambda>c. if participants_can_update_conversations uid c \<and> conv_id c = cid
                        then c\<lparr>conv_last_message_at := Some stamp, conv_updated_at := Some now\<rparr>
                        else c) (chat_conversations db)\<rparr>)"
proof -
  let ?U = "participants_can_update_conversations uid"
  let ?g = "\<lambda>c. c\<lparr>conv_last_message_at := Some stamp, conv_updated_at := Some now\<rparr>"
  let ?G = "\<lambda>c. if ?U c \<and> conv_id c = cid then ?g c else c"
  have u: "\<And>r. ?U (?g r) = ?U r"
    by (simp add: participants_can_update_conversations_def)
  have k: "\<And>r. chat_conversations_row_ok db (?g r) = chat_conversations_row_ok db r"
    by (simp add: chat_conversations_row_ok_def)
  have a: "\<not> list_ex (\<lambda>r. (?U r \<and> conv_id r = cid) \<and> \<not> ?U (?g r)) (chat_conversations db)"
    by (simp add: u list_ex_iff)
  have b: "\<not> list_ex (\<lambda>r. (?U r \<and> conv_id r = cid) \<and> \<not> chat_conversations_row_ok db (?g r))
              (chat_conversations db)"
    using assms(2) by (simp add: k list_ex_iff list_all_iff)
  have "conv_id \<circ> ?G = conv_id" by (auto simp: fun_eq_iff)
  then have c: "distinct (map conv_id (map ?G (chat_conversations db)))"
    using assms(1) by simp
  show ?thesis
    unfolding update_chat_conversations_def rls_update_def Let_def
    using a b c by simp
qed

lemma post_chat_messages_stored:
  assumes "fst (post_chat_messages uid db i t cid sid x) = None"
  shows "snd (post_chat_messages uid db i t cid sid x)
           = db\<lparr>chat_messages := chat_messages db @ [new_chat_message i t cid sid x]\<rparr>"
    and "users_can_insert_messages_in_their_conversations uid (chat_conversations db)
           (new_chat_message i t cid sid x)"
  using assms
  by (simp_all add: post_chat_messages_def insert_chat_messages_def split: if_splits)

lemma sendMessage_answered_ok:
  assumes "trim (newMessage ui) \<noteq> []" and "selectedConversation ui = Some cid" and "cid \<noteq> []"
    and "chat_profile ui = Some p"
    and "insert_network e = Answered"
    and "fst (post_chat_messages (srv_auth_uid srv) (srv_db srv) (insert_uuid e) (insert_now e)
                cid (prof_id p) (trim (newMessage ui))) = None"
  shows "sendMessage e (ui, srv) =
           (ui\<lparr>newMessage := []\<rparr>,
            srv\<lparr>srv_log := srv_log srv @
                   [Insert_chat_messages cid (prof_id p) (trim (newMessage ui)),
                    Update_chat_conversations_last_message_at cid (client_now e)],
                srv_db :=
                  (let db1 = (srv_db srv)\<lparr>chat_messages := chat_messages (srv_db srv) @
                               [new_chat_message (insert_uuid e) (insert_now e) cid (prof_id p)
                                  (trim (newMessage ui))]\<rparr>
                   in if update_network_failure e then db1
                      else snd (update_chat_conversations (srv_auth_uid srv) (update_now e) db1
                                  (\<lambda>c. conv_id c = cid)
                                  (\<lambda>c. c\<lparr>conv_last_message_at := Some (client_now e)\<rparr>)))\<rparr>)"
  using assms(1-6) post_chat_messages_stored(1) [OF assms(6)]
  by (simp add: sendMessage_def falsy_def Let_def issue_def)

lemma sendMessage_log_ok:
  assumes "trim (newMessage ui) \<noteq> []" and "selectedConversation ui = Some cid" and "cid \<noteq> []"
    and "chat_profile ui = Some p"
    and "insert_network e = Answered"
    and "fst (post_chat_messages (srv_auth_uid srv) (srv_db srv) (insert_uuid e) (insert_now e)
                cid (prof_id p) (trim (newMessage ui))) = None"
  shows "srv_log (snd (sendMessage e (ui, srv)))
              = srv_log srv @
                  [Insert_chat_messages cid (prof_id p) (trim (newMessage ui)),
                   Update_chat_conversations_last_message_at cid (client_now e)]
            \<and> chat_messages (srv_db (snd (sendMessage e (ui, srv))))
              = chat_messages (srv_db srv) @
                  [new_chat_message (insert_uuid e) (insert_now e) cid (prof_id p)
                     (trim (newMessage ui))]"
  by (simp add: sendMessage_answered_ok [OF assms] Let_def chat_messages_after_update)

lemma sendMessage_log_error:
  assumes "trim (newMessage ui) \<noteq> []" and "selectedConversation ui = Some cid" and "cid \<noteq> []"
    and "chat_profile ui = Some p"
    and "insert_network e \<noteq> Answered \<or>
         fst (post_chat_messages (srv_auth_uid srv) (srv_db srv) (insert_uuid e) (insert_now e)
                cid (prof_id p) (trim (newMessage ui))) \<noteq> None"
  shows "srv_log (snd (sendMessage e (ui, srv)))
           = srv_log srv @ [Insert_chat_messages cid (prof_id p) (trim (newMessage ui))]"
proof (cases "insert_network e")
  case Answered
  with assms(5) obtain err where
    "fst (post_chat_messages (srv_auth_uid srv) (srv_db srv) (insert_uuid e) (insert_now e)
            cid (prof_id p) (trim (newMessage ui))) = Some err"
    by auto
  with Answered assms(1-4) show ?thesis
    by (simp add: sendMessage_def falsy_def Let_def issue_def)
next
  case Request_lost
  with assms(1-4) show ?thesis
    by (simp add: sendMessage_def falsy_def Let_def issue_def)
next
  case Reply_lost
  with assms(1-4) show ?thesis
    by (simp add: sendMessage_def falsy_def Let_def issue_def)
qed

lemma sendMessage_conversations_after:
  assumes "trim (newMessage ui) \<noteq> []" and "selectedConversation ui = Some cid" and "cid \<noteq> []"
    and "chat_profile ui = Some p"
    and "insert_network e = Answered"
    and "fst (post_chat_messages (srv_auth_uid srv) (srv_db srv) (insert_uuid e) (insert_now e)
                cid (prof_id p) (trim (newMessage ui))) = None"
    and "\<not> update_network_failure e"
    and "distinct (map conv_id (chat_conversations (srv_db srv)))"
    and "list_all (chat_conversations_row_ok (srv_db srv)) (chat_conversations (srv_db srv))"
  shows "chat_conversations (srv_db (snd (sendMessage e (ui, srv)))) =
           map (\<lambda>c. if participants_can_update_conversations (srv_auth_uid srv) c \<and> conv_id c = cid
                     then c\<lparr>conv_last_message_at := Some (client_now e),
                            conv_updated_at := Some (update_now e)\<rparr>
                     else c) (chat_conversations (srv_db srv))"
proof -
  let ?row = "new_chat_message (insert_uuid e) (insert_now e) cid (prof_id p) (trim (newMessage ui))"
  let ?db = "srv_db srv"
  let ?db1 = "?db\<lparr>chat_messages := chat_messages ?db @ [?row]\<rparr>"
  have wf1: "list_all (chat_conversations_row_ok ?db1) (chat_conversations ?db1)"
    using assms(9) by (simp add: chat_conversations_row_ok_def list_all_iff)
  have d1: "distinct (map conv_id (chat_conversations ?db1))" using assms(8) by simp
  have u: "snd (update_chat_conversations (srv_auth_uid srv) (update_now e) ?db1
                  (\<lambda>c. conv_id c = cid) (\<lambda>c. c\<lparr>conv_last_message_at := Some (client_now e)\<rparr>))
            = ?db1\<lparr>chat_conversations :=
                map (\<lambda>c. if participants_can_update_conversations (srv_auth_uid srv) c \<and> conv_id c = cid
                     then c\<lparr>conv_last_message_at := Some (client_now e),
                            conv_updated_at := Some (update_now e)\<rparr>
                     else c) (chat_conversations ?db1)\<rparr>"
    by (simp add: update_last_message_at_consistent [OF d1 wf1])
  show ?thesis
    by (simp add: sendMessage_answered_ok [OF assms(1-6)] Let_def assms(7) u)
qed


lemma sendMessage_last_message_at:
  assumes "trim (newMessage ui) \<noteq> []" and "selectedConversation ui = Some cid" and "cid \<noteq> []"
    and "chat_profile ui = Some p"
    and "insert_network e = Answered"
    and "fst (post_chat_messages (srv_auth_uid srv) (srv_db srv) (insert_uuid e) (insert_now e)
                cid (prof_id p) (trim (newMessage ui))) = None"
    and "\<not> update_network_failure e"
    and "distinct (map conv_id (chat_conversations (srv_db srv)))"
    and "list_all (chat_conversations_row_ok (srv_db srv)) (chat_conversations (srv_db srv))"
  shows "map conv_last_message_at
           (filter (\<lambda>c. conv_id c = cid)
              (chat_conversations (srv_db (snd (sendMessage e (ui, srv))))))
         = [Some (client_now e)]"
proof -
  let ?row = "new_chat_message (insert_uuid e) (insert_now e) cid (prof_id p) (trim (newMessage ui))"
  let ?uid = "srv_auth_uid srv"
  let ?convs = "chat_conversations (srv_db srv)"
  let ?U = "participants_can_update_conversations ?uid"
  define G where "G = (\<lambda>c. if ?U c \<and> conv_id c = cid
                 then c\<lparr>conv_last_message_at := Some (client_now e),
                        conv_updated_at := Some (update_now e)\<rparr>
                 else c)"
  have R: "chat_conversations (srv_db (snd (sendMessage e (ui, srv)))) = map G ?convs"
    unfolding G_def by (rule sendMessage_conversations_after [OF assms])
  have G_id: "conv_id (G r) = conv_id r" for r by (simp add: G_def)
  have G_hit: "conv_last_message_at (G r) = Some (client_now e)" if "?U r" "conv_id r = cid" for r
    using that by (simp add: G_def)
  have pol: "users_can_insert_messages_in_their_conversations ?uid ?convs ?row"
    by (rule post_chat_messages_stored(2) [OF assms(6)])
  have "msg_conversation_id ?row = cid" by (simp add: new_chat_message_def)
  with pol have "list_ex (\<lambda>c. conv_id c = cid \<and> ?U c) ?convs"
    by (simp add: users_can_insert_messages_in_their_conversations_def
          participants_can_update_conversations_def)
  then obtain c0 where c0: "c0 \<in> set ?convs" "conv_id c0 = cid" "?U c0"
    unfolding list_ex_iff by blast
  have one: "filter (\<lambda>c. conv_id c = cid) ?convs = [c0]"
    using filter_unique_key [OF assms(8) c0(1)] by (simp add: c0(2))
  have "filter (\<lambda>c. conv_id c = cid) (map G ?convs)
          = map G (filter (\<lambda>c. conv_id c = cid) ?convs)"
    by (simp add: filter_map o_def G_id)
  then have "filter (\<lambda>c. conv_id c = cid) (map G ?convs) = [G c0]"
    by (simp add: one)
  then show ?thesis
    by (simp add: R G_hit [OF c0(3) c0(2)])
qed

text \<open>
  C6, as stated, does not hold.  The student sends \<open>Hi\<close>: the insert succeeds and
  the update of \<open>last_message_at\<close> follows it, but the value written is the client's
  \<open>new Date()\<close> read after the insert returned (here 2005), while the inserted
  message's timestamp is the \<open>NOW()\<close> the database gave its \<open>created_at\<close> (here
  2000).  And when the database stores the message but its answer is lost on the
  way, the client is handed an error: the insert has succeeded and no update
  follows it.
\<close>

theorem sendMessage_timestamp_counterexample:
  "srv_log (snd (sendMessage demo_send_env (demo_chat (js ''Hi ''), demo_server ''s1'')))
     = [Insert_chat_messages ''c1'' ''s1'' (js ''Hi''),
        Update_chat_conversations_last_message_at ''c1'' 2005]
   \<and> map msg_created_at
        (chat_messages (srv_db (snd (sendMessage demo_send_env
                                       (demo_chat (js ''Hi ''), demo_server ''s1'')))))
       = [Some 1000, Some 2000]
   \<and> map conv_last_message_at
        (chat_conversations (srv_db (snd (sendMessage demo_send_env
                                            (demo_chat (js ''Hi ''), demo_server ''s1'')))))
       = [Some 2005]
   \<and> map msg_created_at
        (chat_messages (srv_db (snd (sendMessage (demo_send_env\<lparr>insert_network := Reply_lost\<rparr>)
                                       (demo_chat (js ''Hi ''), demo_server ''s1'')))))
       = [Some 1000, Some 2000]
   \<and> srv_log (snd (sendMessage (demo_send_env\<lparr>insert_network := Reply_lost\<rparr>)
                      (demo_chat (js ''Hi ''), demo_server ''s1'')))
       = [Insert_chat_messages ''c1'' ''s1'' (js ''Hi'')]"
  by (simp add: sendMessage_def demo_send_env_def demo_chat_def demo_server_def demo_db_def
        demo_message_def demo_conversation_def demo_profile_def new_chat_message_def
        trim_def js_def isWhiteSpace_def falsy_def Let_def issue_def
        post_chat_messages_def text_ok_def is_high_surrogate_def is_low_surrogate_def
        insert_chat_messages_def users_can_insert_messages_in_their_conversations_def
        auth_uid_is_def chat_messages_row_ok_def check_in_def
        update_chat_conversations_def rls_update_def
        participants_can_update_conversations_def chat_conversations_row_ok_def)

text \<open>
  C6, amended.  When \<open>sendMessage\<close> passes its guard, it sends the message insert.
  If the answer it receives reports success, the message is stored and the update
  of the selected conversation's \<open>last_message_at\<close> follows, issued after the insert
  has completed, with the client's clock reading taken then and not the message's
  timestamp.  If the insert is refused, or the request or its answer is lost, no
  update is issued.  Moreover, on a database whose conversation rows satisfy their
  constraints, when the update is not lost, the owning conversation is the one row
  with that id and its \<open>last_message_at\<close> is that reading.
\<close>

theorem sendMessage_update_after_insert:
  assumes "trim (newMessage ui) \<noteq> []" and "selectedConversation ui = Some cid" and "cid \<noteq> []"
    and "chat_profile ui = Some p"
  shows "(insert_network e = Answered \<and>
          fst (post_chat_messages (srv_auth_uid srv) (srv_db srv) (insert_uuid e) (insert_now e)
                 cid (prof_id p) (trim (newMessage ui))) = None \<longrightarrow>
            srv_log (snd (sendMessage e (ui, srv)))
              = srv_log srv @
                  [Insert_chat_messages cid (prof_id p) (trim (newMessage ui)),
                   Update_chat_conversations_last_message_at cid (client_now e)]
            \<and> chat_messages (srv_db (snd (sendMessage e (ui, srv))))
              = chat_messages (srv_db srv) @
                  [new_chat_message (insert_uuid e) (insert_now e) cid (prof_id p)
                     (trim (newMessage ui))])
       \<and> (insert_network e \<noteq> Answered \<or>
          fst (post_chat_messages (srv_auth_uid srv) (srv_db srv) (insert_uuid e) (insert_now e)
                 cid (prof_id p) (trim (newMessage ui))) \<noteq> None \<longrightarrow>
            srv_log (snd (sendMessage e (ui, srv)))
              = srv_log srv @ [Insert_chat_messages cid (prof_id p) (trim (newMessage ui))])
       \<and> (insert_network e = Answered \<and>
          fst (post_chat_messages (srv_auth_uid srv) (srv_db srv) (insert_uuid e) (insert_now e)
                 cid (prof_id p) (trim (newMessage ui))) = None \<and>
          \<not> update_network_failure e \<and>
          distinct (map conv_id (chat_conversations (srv_db srv))) \<and>
          list_all (chat_conversations_row_ok (srv_db srv)) (chat_conversations (srv_db srv)) \<longrightarrow>
            map conv_last_message_at
              (filter (\<lambda>c. conv_id c = cid)
                 (chat_conversations (srv_db (snd (sendMessage e (ui, srv))))))
              = [Some (client_now e)])"
proof (intro conjI impI)
  assume "insert_network e = Answered \<and>
          fst (post_chat_messages (srv_auth_uid srv) (srv_db srv) (insert_uuid e) (insert_now e)
                 cid (prof_id p) (trim (newMessage ui))) = None"
  then have ok: "insert_network e = Answered"
    "fst (post_chat_messages (srv_auth_uid srv) (srv_db srv) (insert_uuid e) (insert_now e)
                 cid (prof_id p) (trim (newMessage ui))) = None"
    by simp_all
  from sendMessage_log_ok [OF assms ok]
  show "srv_log (snd (sendMessage e (ui, srv)))
              = srv_log srv @
                  [Insert_chat_messages cid (prof_id p) (trim (newMessage ui)),
                   Update_chat_conversations_last_message_at cid (client_now e)]"
    and "chat_messages (srv_db (snd (sendMessage e (ui, srv))))
              = chat_messages (srv_db srv) @
                  [new_chat_message (insert_uuid e) (insert_now e) cid (prof_id p)
                     (trim (newMessage ui))]"
    by simp_all
next
  assume f: "insert_network e \<noteq> Answered \<or>
          fst (post_chat_messages (srv_auth_uid srv) (srv_db srv) (insert_uuid e) (insert_now e)
                 cid (prof_id p) (trim (newMessage ui))) \<noteq> None"
  from sendMessage_log_error [OF assms f]
  show "srv_log (snd (sendMessage e (ui, srv)))
              = srv_log srv @ [Insert_chat_messages cid (prof_id p) (trim (newMessage ui))]" .
next
  assume "insert_network e = Answered \<and>
          fst (post_chat_messages (srv_auth_uid srv) (srv_db srv) (insert_uuid e) (insert_now e)
                 cid (prof_id p) (trim (newMessage ui))) = None \<and>
          \<not> update_network_failure e \<and>
          distinct (map conv_id (chat_conversations (srv_db srv))) \<and>
          list_all (chat_conversations_row_ok (srv_db srv)) (chat_conversations (srv_db srv))"
  then have h: "insert_network e = Answered"
    "fst (post_chat_messages (srv_auth_uid srv) (srv_db srv) (insert_uuid e) (insert_now e)
                 cid (prof_id p) (trim (newMessage ui))) = None"
    "\<not> update_network_failure e"
    "distinct (map conv_id (chat_conversations (srv_db srv)))"
    "list_all (chat_conversations_row_ok (srv_db srv)) (chat_conversations (srv_db srv))"
    by simp_all
  from sendMessage_last_message_at [OF assms h]
  show "map conv_last_message_at
          (filter (\<lambda>c. conv_id c = cid)
             (chat_conversations (srv_db (snd (sendMessage e (ui, srv))))))
        = [Some (client_now e)]" .
qed

theorem sendMessage_update_after_insert_witness:
  "srv_log (snd (sendMessage demo_send_env (demo_chat (js ''Hi ''), demo_server ''s1'')))
     = [Insert_chat_messages ''c1'' ''s1'' (js ''Hi''),
        Update_chat_conversations_last_message_at ''c1'' 2005]
   \<and> map conv_last_message_at
        (filter (\<lambda>c. conv_id c = ''c1'')
           (chat_conversations (srv_db (snd (sendMessage demo_send_env
                                               (demo_chat (js ''Hi ''), demo_server ''s1''))))))
       = [Some 2005]
   \<and> srv_log (snd (sendMessage demo_send_env (demo_chat (js ''Hi ''), demo_server ''x3'')))
       = [Insert_chat_messages ''c1'' ''s1'' (js ''Hi'')]
   \<and> srv_log (snd (sendMessage (demo_send_env\<lparr>insert_network := Reply_lost\<rparr>)
                      (demo_chat (js ''Hi ''), demo_server ''s1'')))
       = [Insert_chat_messages ''c1'' ''s1'' (js ''Hi'')]
   \<and> srv_log (snd (sendMessage demo_send_env (demo_chat [0x61, 0, 0x62], demo_server ''s1'')))
       = [Insert_chat_messages ''c1'' ''s1'' [0x61, 0, 0x62]]"
proof -
  let ?ui = "demo_chat (js ''Hi '')"
  let ?nul = "demo_chat [0x61, 0, 0x62]"
  let ?p = "demo_profile ''s1'' Student"
  have t: "trim (newMessage ?ui) = js ''Hi''" "trim (newMessage ?nul) = [0x61, 0, 0x62]"
    by (simp_all add: demo_chat_def trim_def js_def isWhiteSpace_def)
  have pre: "trim (newMessage ?ui) \<noteq> []" "selectedConversation ?ui = Some ''c1''" "''c1'' \<noteq> []"
    "chat_profile ?ui = Some ?p"
    by (simp_all add: demo_chat_def trim_def js_def isWhiteSpace_def)
  have pre0: "trim (newMessage ?nul) \<noteq> []" "selectedConversation ?nul = Some ''c1''" "''c1'' \<noteq> []"
    "chat_profile ?nul = Some ?p"
    by (simp_all add: demo_chat_def trim_def isWhiteSpace_def)
  have sel: "\<And>u. srv_auth_uid (demo_server u) = Some u" "\<And>u. srv_db (demo_server u) = demo_db"
    "\<And>u. srv_log (demo_server u) = []" "prof_id ?p = ''s1''"
    "insert_uuid demo_send_env = ''m2''" "insert_now demo_send_env = 2000"
    "client_now demo_send_env = 2005" "insert_network demo_send_env = Answered"
    "\<not> update_network_failure demo_send_env"
    by (simp_all add: demo_server_def demo_profile_def demo_send_env_def)
  have ok: "fst (post_chat_messages (Some ''s1'') demo_db ''m2'' 2000 ''c1'' ''s1'' (js ''Hi'')) = None"
    by (simp add: post_chat_messages_def text_ok_def js_def is_high_surrogate_def
          is_low_surrogate_def insert_chat_messages_def
          users_can_insert_messages_in_their_conversations_def
          auth_uid_is_def chat_messages_row_ok_def check_in_def demo_db_def demo_message_def
          demo_conversation_def demo_profile_def new_chat_message_def)
  have bad: "fst (post_chat_messages (Some ''x3'') demo_db ''m2'' 2000 ''c1'' ''s1'' (js ''Hi''))
               \<noteq> None"
    by (simp add: post_chat_messages_def insert_chat_messages_def
          users_can_insert_messages_in_their_conversations_def
          auth_uid_is_def new_chat_message_def)
  have nul: "fst (post_chat_messages (Some ''s1'') demo_db ''m2'' 2000 ''c1'' ''s1'' [0x61, 0, 0x62])
               \<noteq> None"
    by (simp add: post_chat_messages_def text_ok_def)
  have wf: "distinct (map conv_id (chat_conversations demo_db))"
    "list_all (chat_conversations_row_ok demo_db) (chat_conversations demo_db)"
    by (simp_all add: demo_db_def chat_conversations_row_ok_def demo_conversation_def
          demo_profile_def check_in_def)
  show ?thesis
    using sendMessage_update_after_insert [OF pre, of demo_send_env "demo_server ''s1''"]
      sendMessage_update_after_insert [OF pre, of demo_send_env "demo_server ''x3''"]
      sendMessage_update_after_insert [OF pre,
        of "demo_send_env\<lparr>insert_network := Reply_lost\<rparr>" "demo_server ''s1''"]
      sendMessage_update_after_insert [OF pre0, of demo_send_env "demo_server ''s1''"]
      ok bad nul wf
    by (simp add: t sel)
qed

subsection \<open>Merging realtime notifications\<close>

lemma on_insert_visible:
  assumes "distinct (map msg_id (chat_messages (srv_db srv)))"
    and "m \<in> set (chat_messages (srv_db srv))"
    and "users_can_view_messages_in_their_conversations (srv_auth_uid srv)
           (chat_conversations (srv_db srv)) m"
  shows "on_insert m (ui, srv) =
           (ui\<lparr>messages := messages ui @ [with_sender (srv_db srv) m]\<rparr>,
            issue (Select_chat_messages_by_id (msg_id m)) srv)"
  using select_chat_messages_filter_id [OF assms(1,2), of "srv_auth_uid srv"] assms(3)
  by (simp add: on_insert_def fetchMessageWithSender_def single_def Let_def)

lemma find_unique_key:
  assumes "distinct (map k xs)" and "x \<in> set xs"
  shows "find (\<lambda>y. k y = k x) xs = Some x"
  using assms
proof (induction xs)
  case Nil then show ?case by simp
next
  case (Cons a xs)
  show ?case
  proof (cases "a = x")
    case True then show ?thesis by simp
  next
    case False
    then have x: "x \<in> set xs" using Cons.prems(2) by simp
    have "k a \<notin> k ` set xs" using Cons.prems(1) by simp
    then have "k a \<noteq> k x" using x by (metis imageI)
    then show ?thesis using Cons.IH Cons.prems(1) x by simp
  qed
qed

lemma fetchMessageWithSender_split:
  "fetchMessageWithSender nf i (ui, srv) =
     (fetchMessageWithSender_answer (fst (fetchMessageWithSender_request nf i srv)) ui,
      snd (fetchMessageWithSender_request nf i srv))"
  by (cases "single (filter (\<lambda>m. msg_id m = i)
               (select_chat_messages (srv_auth_uid srv) (srv_db srv)))")
     (simp_all add: fetchMessageWithSender_def fetchMessageWithSender_request_def
        fetchMessageWithSender_answer_def select_chat_message_by_id_def Let_def)

lemma fetchMessages_split:
  "fetchMessages nf cid (ui, srv) =
     (fetchMessages_answer (fst (fetchMessages_request nf cid srv)) ui,
      snd (fetchMessages_request nf cid srv))"
  by (simp add: fetchMessages_def fetchMessages_request_def fetchMessages_answer_def Let_def)

lemma notification_then_arrival:
  "step (Arrival 0) (step (Notification m) (ui, [], srv)) =
     (fst (on_insert m (ui, srv)), [], snd (on_insert m (ui, srv)))"
  by (simp add: on_insert_def fetchMessageWithSender_split arrive_def)

lemma answered_in_turn_appends:
  assumes "distinct (map msg_id (chat_messages (srv_db srv)))"
    and "\<forall>m\<in>set ms. m \<in> set (chat_messages (srv_db srv)) \<and>
           users_can_view_messages_in_their_conversations (srv_auth_uid srv)
             (chat_conversations (srv_db srv)) m"
  shows "run (answered_in_turn ms) (ui, [], srv) =
           (ui\<lparr>messages := messages ui @ map (with_sender (srv_db srv)) ms\<rparr>, [],
            srv\<lparr>srv_log := srv_log srv @ map (\<lambda>m. Select_chat_messages_by_id (msg_id m)) ms\<rparr>)"
  using assms
proof (induction ms arbitrary: ui srv)
  case Nil
  then show ?case by (simp add: run_def answered_in_turn_def)
next
  case (Cons m ms)
  let ?srv1 = "issue (Select_chat_messages_by_id (msg_id m)) srv"
  let ?ui1 = "ui\<lparr>messages := messages ui @ [with_sender (srv_db srv) m]\<rparr>"
  have same: "srv_db ?srv1 = srv_db srv" "srv_auth_uid ?srv1 = srv_auth_uid srv"
    by (simp_all add: issue_def)
  have one: "on_insert m (ui, srv) = (?ui1, ?srv1)"
    using on_insert_visible [of srv m ui] Cons.prems by simp
  have two: "step (Arrival 0) (step (Notification m) (ui, [], srv)) = (?ui1, [], ?srv1)"
    by (simp only: notification_then_arrival one fst_conv snd_conv)
  have unfold: "run (answered_in_turn (m # ms)) (ui, [], srv)
                  = run (answered_in_turn ms)
                      (step (Arrival 0) (step (Notification m) (ui, [], srv)))"
    by (simp add: run_def answered_in_turn_def)
  have "run (answered_in_turn ms) (?ui1, [], ?srv1) =
          (?ui1\<lparr>messages := messages ?ui1 @ map (with_sender (srv_db ?srv1)) ms\<rparr>, [],
           ?srv1\<lparr>srv_log := srv_log ?srv1 @ map (\<lambda>m. Select_chat_messages_by_id (msg_id m)) ms\<rparr>)"
    using Cons.IH [of ?srv1 ?ui1] Cons.prems by (simp add: same)
  then show ?case
    unfolding unfold two by (simp add: same issue_def)
qed

lemma sort_key_ascending:
  fixes k :: "'a \<Rightarrow> timestamptz option"
  assumes "i < j" and "j < length (sort_key (\<lambda>m. asc_key (k m)) xs)"
    and "k (sort_key (\<lambda>m. asc_key (k m)) xs ! j) = Some y"
  shows "\<exists>x. k (sort_key (\<lambda>m. asc_key (k m)) xs ! i) = Some x \<and> x \<le> y"
proof -
  let ?s = "sort_key (\<lambda>m. asc_key (k m)) xs"
  have "sorted (map (\<lambda>m. asc_key (k m)) ?s)" by (rule sorted_sort_key)
  then have "asc_key (k (?s ! i)) \<le> asc_key (k (?s ! j))"
    using assms(1,2) by (simp add: sorted_iff_nth_mono)
  then show ?thesis
    using assms(3) by (cases "k (?s ! i)") (simp_all add: asc_key_def)
qed

lemma effect_requests_history:
  assumes "selectedConversation ui = Some cid" and "cid \<noteq> []"
  shows "\<exists>h. step Effect (ui, w, srv) =
               (ui, w @ [History (Inr h)], issue (Select_chat_messages_of_conversation cid) srv)
           \<and> set (map fst h) =
               {m \<in> set (select_chat_messages (srv_auth_uid srv) (srv_db srv)).
                  msg_conversation_id m = cid}
           \<and> length h =
               length (filter (\<lambda>m. msg_conversation_id m = cid)
                         (select_chat_messages (srv_auth_uid srv) (srv_db srv)))
           \<and> (\<forall>i j y. i < j \<and> j < length h \<and> msg_created_at (fst (h ! j)) = Some y \<longrightarrow>
                  (\<exists>x. msg_created_at (fst (h ! i)) = Some x \<and> x \<le> y))"
proof -
  let ?F = "filter (\<lambda>m. msg_conversation_id m = cid)
              (select_chat_messages (srv_auth_uid srv) (srv_db srv))"
  let ?S = "sort_key (\<lambda>m. asc_key (msg_created_at m)) ?F"
  let ?h = "map (with_sender (srv_db srv)) ?S"
  have fsts: "map fst ?h = ?S" by (simp add: with_sender_def o_def)
  have a: "step Effect (ui, w, srv) =
             (ui, w @ [History (Inr ?h)], issue (Select_chat_messages_of_conversation cid) srv)"
    using assms by (simp add: fetchMessages_request_def)
  have b: "set (map fst ?h) =
             {m \<in> set (select_chat_messages (srv_auth_uid srv) (srv_db srv)).
                msg_conversation_id m = cid}"
    unfolding fsts by auto
  have c: "length ?h = length ?F" by simp
  have d: "\<forall>i j y. i < j \<and> j < length ?h \<and> msg_created_at (fst (?h ! j)) = Some y \<longrightarrow>
                  (\<exists>x. msg_created_at (fst (?h ! i)) = Some x \<and> x \<le> y)"
  proof (intro allI impI)
    fix i j y
    assume h: "i < j \<and> j < length ?h \<and> msg_created_at (fst (?h ! j)) = Some y"
    then have lt: "i < j" "j < length ?S" "i < length ?S" by simp_all
    have nth: "fst (?h ! j) = ?S ! j" "fst (?h ! i) = ?S ! i"
      using lt by (simp_all add: with_sender_def)
    from h have "msg_created_at (?S ! j) = Some y" by (simp only: nth)
    from sort_key_ascending [of i j msg_created_at ?F y, OF lt(1) lt(2) this]
    show "\<exists>x. msg_created_at (fst (?h ! i)) = Some x \<and> x \<le> y"
      by (simp only: nth)
  qed
  from a b c d show ?thesis by blast
qed

lemma notification_requests_row:
  assumes "distinct (map msg_id (chat_messages (srv_db srv)))"
    and "n \<in> set (chat_messages (srv_db srv))"
    and "users_can_view_messages_in_their_conversations (srv_auth_uid srv)
           (chat_conversations (srv_db srv)) n"
  shows "fst (fetchMessageWithSender_request False (msg_id n) srv)
           = Inr (with_sender (srv_db srv) n)"
  using select_chat_messages_filter_id [OF assms(1,2), of "srv_auth_uid srv"] assms(3)
  by (simp add: fetchMessageWithSender_request_def select_chat_message_by_id_def single_def)

text \<open>
  C7, as stated, does not hold: the list does not keep the arrival order.  Two
  notifications arrive, for \<open>m1\<close> and then for \<open>m0\<close>; the answer of the second
  fetch returns first, and the list holds \<open>m0\<close> before \<open>m1\<close>.  And a history answer
  that returns late replaces the list: a message stored and notified after the
  history was requested is appended when its row arrives, and gone once the history
  arrives.
\<close>

theorem realtime_order_counterexample:
  "map fst (messages (fst (run [Notification demo_message, Notification demo_reply,
                               Arrival 1, Arrival 0]
                             (demo_chat [], [], demo_server2 ''k1''))))
     = [demo_reply, demo_message]
   \<and> map fst (messages (fst (run [Effect, Stored demo_late, Notification demo_late, Arrival 1]
                               (demo_chat [], [], demo_server2 ''k1''))))
       = [demo_late]
   \<and> map fst (messages (fst (run [Effect, Stored demo_late, Notification demo_late, Arrival 1,
                                 Arrival 0]
                               (demo_chat [], [], demo_server2 ''k1''))))
       = [demo_reply, demo_message]"
  by (simp add: run_def fetchMessageWithSender_request_def fetchMessages_request_def
        arrive_def fetchMessageWithSender_answer_def fetchMessages_answer_def
        select_chat_message_by_id_def single_def select_chat_messages_def
        users_can_view_messages_in_their_conversations_def auth_uid_is_def
        with_sender_def issue_def asc_key_def
        demo_chat_def demo_server2_def demo_db_def demo_conversation_def
        demo_message_def demo_reply_def demo_late_def new_chat_message_def)

text \<open>
  C7, amended.  The effect of the selected conversation requests the history once,
  without touching the list; the answer holds the conversation's readable messages
  in ascending order of \<open>created_at\<close> (a message without one after all that have
  one), and when it arrives it replaces the list.  On each insert notification the
  client requests the row by id, without touching the list; the answer for a
  readable message is that row with its sender's profile, and when it arrives it is
  appended at the end of the list as it is then.  So rows stand in the order their
  answers arrive: when every notification is answered before the next one is
  handled, the list is the previous list followed by the rows in arrival order.
\<close>

theorem realtime_merge_on_arrival:
  "(selectedConversation ui = Some cid \<and> cid \<noteq> [] \<longrightarrow>
      (\<exists>h. step Effect (ui, w, srv) =
               (ui, w @ [History (Inr h)], issue (Select_chat_messages_of_conversation cid) srv)
           \<and> set (map fst h) =
               {m \<in> set (select_chat_messages (srv_auth_uid srv) (srv_db srv)).
                  msg_conversation_id m = cid}
           \<and> length h =
               length (filter (\<lambda>m. msg_conversation_id m = cid)
                         (select_chat_messages (srv_auth_uid srv) (srv_db srv)))
           \<and> (\<forall>i j y. i < j \<and> j < length h \<and> msg_created_at (fst (h ! j)) = Some y \<longrightarrow>
                  (\<exists>x. msg_created_at (fst (h ! i)) = Some x \<and> x \<le> y))))
   \<and> step (Notification n) (ui, w, srv) =
        (ui, w @ [Row (fst (fetchMessageWithSender_request False (msg_id n) srv))],
         issue (Select_chat_messages_by_id (msg_id n)) srv)
   \<and> (distinct (map msg_id (chat_messages (srv_db srv))) \<and>
       n \<in> set (chat_messages (srv_db srv)) \<and>
       users_can_view_messages_in_their_conversations (srv_auth_uid srv)
         (chat_conversations (srv_db srv)) n \<longrightarrow>
        fst (fetchMessageWithSender_request False (msg_id n) srv)
          = Inr (with_sender (srv_db srv) n))
   \<and> (k < length w \<and> w ! k = Row (Inr r) \<longrightarrow>
        step (Arrival k) (ui, w, srv) =
          (ui\<lparr>messages := messages ui @ [r]\<rparr>, take k w @ drop (Suc k) w, srv))
   \<and> (k < length w \<and> w ! k = History (Inr rows) \<longrightarrow>
        step (Arrival k) (ui, w, srv) =
          (ui\<lparr>messages := rows\<rparr>, take k w @ drop (Suc k) w, srv))
   \<and> (distinct (map msg_id (chat_messages (srv_db srv))) \<and>
       (\<forall>m\<in>set ms. m \<in> set (chat_messages (srv_db srv)) \<and>
           users_can_view_messages_in_their_conversations (srv_auth_uid srv)
             (chat_conversations (srv_db srv)) m) \<longrightarrow>
        messages (fst (run (answered_in_turn ms) (ui, [], srv)))
          = messages ui @ map (with_sender (srv_db srv)) ms)
   \<and> (distinct (map prof_id (profiles db)) \<and> p \<in> set (profiles db) \<and>
       msg_sender_id n = prof_id p \<longrightarrow> with_sender db n = (n, Some p))"
proof (intro conjI impI)
  assume "selectedConversation ui = Some cid \<and> cid \<noteq> []"
  then have "selectedConversation ui = Some cid" "cid \<noteq> []" by simp_all
  then show "\<exists>h. step Effect (ui, w, srv) =
               (ui, w @ [History (Inr h)], issue (Select_chat_messages_of_conversation cid) srv)
           \<and> set (map fst h) =
               {m \<in> set (select_chat_messages (srv_auth_uid srv) (srv_db srv)).
                  msg_conversation_id m = cid}
           \<and> length h =
               length (filter (\<lambda>m. msg_conversation_id m = cid)
                         (select_chat_messages (srv_auth_uid srv) (srv_db srv)))
           \<and> (\<forall>i j y. i < j \<and> j < length h \<and> msg_created_at (fst (h ! j)) = Some y \<longrightarrow>
                  (\<exists>x. msg_created_at (fst (h ! i)) = Some x \<and> x \<le> y))"
    by (rule effect_requests_history)
next
  show "step (Notification n) (ui, w, srv) =
        (ui, w @ [Row (fst (fetchMessageWithSender_request False (msg_id n) srv))],
         issue (Select_chat_messages_by_id (msg_id n)) srv)"
    by (simp add: fetchMessageWithSender_request_def)
next
  assume "distinct (map msg_id (chat_messages (srv_db srv))) \<and>
       n \<in> set (chat_messages (srv_db srv)) \<and>
       users_can_view_messages_in_their_conversations (srv_auth_uid srv)
         (chat_conversations (srv_db srv)) n"
  then show "fst (fetchMessageWithSender_request False (msg_id n) srv)
          = Inr (with_sender (srv_db srv) n)"
    by (simp add: notification_requests_row)
next
  assume "k < length w \<and> w ! k = Row (Inr r)"
  then show "step (Arrival k) (ui, w, srv) =
          (ui\<lparr>messages := messages ui @ [r]\<rparr>, take k w @ drop (Suc k) w, srv)"
    by (simp add: arrive_def fetchMessageWithSender_answer_def)
next
  assume "k < length w \<and> w ! k = History (Inr rows)"
  then show "step (Arrival k) (ui, w, srv) =
          (ui\<lparr>messages := rows\<rparr>, take k w @ drop (Suc k) w, srv)"
    by (simp add: arrive_def fetchMessages_answer_def)
next
  assume "distinct (map msg_id (chat_messages (srv_db srv))) \<and>
       (\<forall>m\<in>set ms. m \<in> set (chat_messages (srv_db srv)) \<and>
           users_can_view_messages_in_their_conversations (srv_auth_uid srv)
             (chat_conversations (srv_db srv)) m)"
  then have "distinct (map msg_id (chat_messages (srv_db srv)))"
    "\<forall>m\<in>set ms. m \<in> set (chat_messages (srv_db srv)) \<and>
           users_can_view_messages_in_their_conversations (srv_auth_uid srv)
             (chat_conversations (srv_db srv)) m"
    by simp_all
  from answered_in_turn_appends [OF this, of ui]
  show "messages (fst (run (answered_in_turn ms) (ui, [], srv)))
          = messages ui @ map (with_sender (srv_db srv)) ms"
    by simp
next
  assume "distinct (map prof_id (profiles db)) \<and> p \<in> set (profiles db) \<and>
       msg_sender_id n = prof_id p"
  then show "with_sender db n = (n, Some p)"
    using find_unique_key [of prof_id "profiles db" p]
    by (simp add: with_sender_def embed_profile_def)
qed

theorem realtime_merge_on_arrival_witness:
  "(\<exists>h. step Effect (demo_chat [], [], demo_server2 ''k1'') =
           (demo_chat [], [History (Inr h)],
            issue (Select_chat_messages_of_conversation ''c1'') (demo_server2 ''k1''))
        \<and> length h = 2)
   \<and> fst (fetchMessageWithSender_request False (msg_id demo_message) (demo_server2 ''k1''))
       = Inr (demo_message, Some (demo_profile ''s1'' Student))
   \<and> step (Arrival 1)
        (demo_chat [],
         [History (Inr []), Row (Inr (demo_message, Some (demo_profile ''s1'' Student)))],
         demo_server2 ''k1'')
       = ((demo_chat [])\<lparr>messages := [(demo_message, Some (demo_profile ''s1'' Student))]\<rparr>,
          [History (Inr [])], demo_server2 ''k1'')
   \<and> step (Arrival 0)
        ((demo_chat [])\<lparr>messages := [(demo_message, Some (demo_profile ''s1'' Student))]\<rparr>,
         [History (Inr [])], demo_server2 ''k1'')
       = ((demo_chat [])\<lparr>messages := []\<rparr>, [], demo_server2 ''k1'')
   \<and> messages (fst (run (answered_in_turn [demo_message, demo_reply])
                       (demo_chat [], [], demo_server2 ''k1'')))
       = [(demo_message, Some (demo_profile ''s1'' Student)),
          (demo_reply, Some (demo_profile ''k1'' Counselor))]"
proof -
  let ?srv = "demo_server2 ''k1''"
  let ?db = "srv_db ?srv"
  let ?em = "(demo_message, Some (demo_profile ''s1'' Student))"
  let ?ui1 = "(demo_chat [])\<lparr>messages := [?em]\<rparr>"
  have pre: "selectedConversation (demo_chat []) = Some ''c1''" "''c1'' \<noteq> []"
    "messages (demo_chat []) = []" "messages ?ui1 = [?em]"
    by (simp_all add: demo_chat_def)
  have len: "length (filter (\<lambda>m. msg_conversation_id m = ''c1'')
               (select_chat_messages (srv_auth_uid ?srv) ?db)) = 2"
    by (simp add: select_chat_messages_def users_can_view_messages_in_their_conversations_def
          auth_uid_is_def demo_server2_def demo_db_def demo_message_def demo_reply_def
          demo_conversation_def new_chat_message_def)
  have d: "distinct (map msg_id (chat_messages ?db))"
    by (simp add: demo_server2_def demo_message_def demo_reply_def new_chat_message_def)
  have vis: "\<forall>m\<in>set [demo_message, demo_reply]. m \<in> set (chat_messages ?db) \<and>
           users_can_view_messages_in_their_conversations (srv_auth_uid ?srv)
             (chat_conversations ?db) m"
    by (simp add: users_can_view_messages_in_their_conversations_def auth_uid_is_def
          demo_server2_def demo_db_def demo_message_def demo_reply_def demo_conversation_def
          new_chat_message_def)
  then have vis1: "demo_message \<in> set (chat_messages ?db)"
    "users_can_view_messages_in_their_conversations (srv_auth_uid ?srv)
       (chat_conversations ?db) demo_message"
    by simp_all
  have prof: "distinct (map prof_id (profiles ?db))"
    "demo_profile ''s1'' Student \<in> set (profiles ?db)"
    "demo_profile ''k1'' Counselor \<in> set (profiles ?db)"
    "msg_sender_id demo_message = prof_id (demo_profile ''s1'' Student)"
    "msg_sender_id demo_reply = prof_id (demo_profile ''k1'' Counselor)"
    by (simp_all add: demo_server2_def demo_db_def demo_profile_def demo_message_def
          demo_reply_def new_chat_message_def)
  note T1 = realtime_merge_on_arrival [where ui = "demo_chat []" and cid = "''c1''"
        and w = "[]" and srv = ?srv and n = demo_message and ms = "[demo_message, demo_reply]"
        and db = ?db and p = "demo_profile ''s1'' Student"]
  note T2 = realtime_merge_on_arrival [where ui = "demo_chat []"
        and w = "[History (Inr []), Row (Inr ?em)]" and srv = ?srv and k = 1 and r = ?em]
  note T3 = realtime_merge_on_arrival [where ui = ?ui1
        and w = "[History (Inr [])]" and srv = ?srv and k = 0 and rows = "[]"]
  note T4 = realtime_merge_on_arrival [where n = demo_reply and db = ?db
        and p = "demo_profile ''k1'' Counselor"]
  from T1 pre(1,2) obtain h where h: "step Effect (demo_chat [], [], ?srv) =
           (demo_chat [], [] @ [History (Inr h)],
            issue (Select_chat_messages_of_conversation ''c1'') ?srv)"
      "length h = length (filter (\<lambda>m. msg_conversation_id m = ''c1'')
                            (select_chat_messages (srv_auth_uid ?srv) ?db))"
    by blast
  then have a: "\<exists>h. step Effect (demo_chat [], [], ?srv) =
           (demo_chat [], [History (Inr h)],
            issue (Select_chat_messages_of_conversation ''c1'') ?srv) \<and> length h = 2"
    using len by auto
  have e1: "with_sender ?db demo_message = ?em" using T1 prof by blast
  have e2: "with_sender ?db demo_reply = (demo_reply, Some (demo_profile ''k1'' Counselor))"
    using T4 prof by blast
  have b: "fst (fetchMessageWithSender_request False (msg_id demo_message) ?srv) = Inr ?em"
    using T1 d vis1 e1 by simp
  have c: "step (Arrival 1) (demo_chat [], [History (Inr []), Row (Inr ?em)], ?srv)
             = (?ui1, [History (Inr [])], ?srv)"
    using T2 pre(3) by simp
  have c2: "step (Arrival 0) (?ui1, [History (Inr [])], ?srv)
             = ((demo_chat [])\<lparr>messages := []\<rparr>, [], ?srv)"
    using T3 by simp
  have g: "messages (fst (run (answered_in_turn [demo_message, demo_reply])
                       (demo_chat [], [], ?srv)))
       = [?em, (demo_reply, Some (demo_profile ''k1'' Counselor))]"
    using T1 d vis pre(3) e1 e2 by simp
  from a b c c2 g show ?thesis by blast
qed

text \<open>
  C8.  The merge step is not idempotent.  Handling the same insert notification
  twice appends the fetched row twice: the list then holds two more entries with
  that message id than before, and differs from the list after one delivery.
\<close>

theorem realtime_merge_duplicates:
  assumes "distinct (map msg_id (chat_messages (srv_db srv)))"
    and "m \<in> set (chat_messages (srv_db srv))"
    and "users_can_view_messages_in_their_conversations (srv_auth_uid srv)
           (chat_conversations (srv_db srv)) m"
  shows "messages (fst (on_insert m (on_insert m (ui, srv))))
           = messages ui @ [with_sender (srv_db srv) m, with_sender (srv_db srv) m]
       \<and> length (filter (\<lambda>e. msg_id (fst e) = msg_id m)
                   (messages (fst (on_insert m (on_insert m (ui, srv))))))
           = length (filter (\<lambda>e. msg_id (fst e) = msg_id m) (messages ui)) + 2
       \<and> fst (on_insert m (on_insert m (ui, srv))) \<noteq> fst (on_insert m (ui, srv))"
proof -
  let ?srv1 = "issue (Select_chat_messages_by_id (msg_id m)) srv"
  let ?ui1 = "ui\<lparr>messages := messages ui @ [with_sender (srv_db srv) m]\<rparr>"
  have same: "srv_db ?srv1 = srv_db srv" "srv_auth_uid ?srv1 = srv_auth_uid srv"
    by (simp_all add: issue_def)
  have one: "on_insert m (ui, srv) = (?ui1, ?srv1)"
    by (rule on_insert_visible [OF assms])
  have two: "on_insert m (?ui1, ?srv1) =
          (?ui1\<lparr>messages := messages ?ui1 @ [with_sender (srv_db ?srv1) m]\<rparr>,
           issue (Select_chat_messages_by_id (msg_id m)) ?srv1)"
    using on_insert_visible [of ?srv1 m ?ui1] assms by (simp add: same)
  have neq: "messages (fst (on_insert m (on_insert m (ui, srv))))
               \<noteq> messages (fst (on_insert m (ui, srv)))"
    by (simp add: one two)
  then have "fst (on_insert m (on_insert m (ui, srv))) \<noteq> fst (on_insert m (ui, srv))"
    by metis
  moreover have "fst (with_sender (srv_db srv) m) = m"
    by (simp add: with_sender_def)
  ultimately show ?thesis
    by (simp add: one two same)
qed

theorem realtime_merge_duplicates_witness:
  "messages (fst (on_insert demo_message (on_insert demo_message (demo_chat [], demo_server ''k1''))))
     = [with_sender demo_db demo_message, with_sender demo_db demo_message]
   \<and> length (filter (\<lambda>e. msg_id (fst e) = ''m1'')
        (messages (fst (on_insert demo_message
                          (on_insert demo_message (demo_chat [], demo_server ''k1'')))))) = 2"
proof -
  let ?srv = "demo_server ''k1''"
  have sel: "srv_db ?srv = demo_db" "srv_auth_uid ?srv = Some ''k1''"
    by (simp_all add: demo_server_def)
  have d: "distinct (map msg_id (chat_messages (srv_db ?srv)))"
    and m: "demo_message \<in> set (chat_messages (srv_db ?srv))"
    by (simp_all add: demo_server_def demo_db_def)
  have v: "users_can_view_messages_in_their_conversations (srv_auth_uid ?srv)
             (chat_conversations (srv_db ?srv)) demo_message"
    by (simp add: users_can_view_messages_in_their_conversations_def auth_uid_is_def
          demo_server_def demo_db_def demo_message_def demo_conversation_def new_chat_message_def)
  have i: "msg_id demo_message = ''m1''" "messages (demo_chat []) = []"
    "fst (with_sender demo_db demo_message) = demo_message"
    by (simp_all add: demo_message_def new_chat_message_def demo_chat_def with_sender_def)
  show ?thesis
    using realtime_merge_duplicates [OF d m v, of "demo_chat []"]
    by (simp add: sel i)
qed

end
